theory Spec2Isabelle
  imports Main "HOL-Library.Word" "HOL-Library.Monad_Syntax" "HOL-Library.Sublist"
begin

section \<open>JavaScript strings and values\<close>

text \<open>
  A JavaScript string is a sequence of UTF-16 code units: \<open>cmd.length\<close> counts them and
  \<open>cmd.slice\<close> cuts between them. ASCII literals of the source are written with \<open>str\<close>;
  the few non-ASCII characters of the source literals are given by their code unit.
\<close>

type_synonym jschar = "16 word"
type_synonym jsstring = "jschar list"

definition str :: "string \<Rightarrow> jsstring" where
  "str s = map of_char s"

definition bullet :: jsstring where
  "bullet = [0x2022]"

definition o_acute :: jsstring where
  "o_acute = [0x00F3]"

definition O_acute :: jsstring where
  "O_acute = [0x00D3]"

text \<open>\<open>Array.prototype.join\<close> on an array whose elements are already strings.\<close>

fun join :: "jsstring \<Rightarrow> jsstring list \<Rightarrow> jsstring" where
  "join sep [] = []"
| "join sep [x] = x"
| "join sep (x # y # ys) = x @ sep @ join sep (y # ys)"

text \<open>
  The content records are imported JSON and typed \<open>any\<close> in the formatters, so a record
  is any JSON value; \<open>Undefined\<close> is what reading an absent property gives. Every key of
  an object is an own data property, its prototype is \<open>Object.prototype\<close>.

  The numbers of the model are the integers from \<open>-2^53\<close> to \<open>2^53\<close>: each of them is a
  double, and JavaScript prints it with its decimal digits. A JSON number with a fraction
  or of a larger magnitude prints as the engine's shortest digits that read back as the
  same double, in exponent form from \<open>10^21\<close>; those numbers are not values of the model.
\<close>

typedef jsint = "{n :: int. - (2 ^ 53) \<le> n \<and> n \<le> 2 ^ 53}"
  by (rule exI [of _ 0]) simp

datatype jsval =
    Undefined
  | Null
  | Bool bool
  | Num jsint
  | Str jsstring
  | Arr "jsval list"
  | Obj "(jsstring \<times> jsval) list"

definition digit :: "nat \<Rightarrow> jschar" where
  "digit d = of_nat (48 + d)"

function showNat :: "nat \<Rightarrow> jsstring" where
  "showNat n = (if n < 10 then [digit n] else showNat (n div 10) @ [digit (n mod 10)])"
  by pat_completeness auto
termination
  by (relation "measure id") auto

declare showNat.simps [simp del]

definition showInt :: "jsint \<Rightarrow> jsstring" where
  "showInt n =
     (let i = Rep_jsint n
      in if i < 0 then str ''-'' @ showNat (nat (- i)) else showNat (nat i))"

definition num :: "int \<Rightarrow> jsval" where
  "num i = Num (Abs_jsint i)"

text \<open>
  \<open>ToString\<close>, as a template literal \<open>${v}\<close> applies it. \<open>None\<close> is a thrown
  \<open>TypeError\<close>, the only exception this code can raise: an object converts through
  \<open>Object.prototype.toString\<close> unless an own property named \<open>toString\<close> shadows it, and
  a JSON value there is not callable (\<open>Cannot convert object to primitive value\<close>).
  An array converts by joining its elements with a comma, \<open>null\<close> and \<open>undefined\<close>
  elements as the empty string.
\<close>

fun toStr :: "jsval \<Rightarrow> jsstring option"
  and elemStrs :: "jsval list \<Rightarrow> jsstring list option" where
  "toStr Undefined = Some (str ''undefined'')"
| "toStr Null = Some (str ''null'')"
| "toStr (Bool b) = Some (if b then str ''true'' else str ''false'')"
| "toStr (Num n) = Some (showInt n)"
| "toStr (Str s) = Some s"
| "toStr (Arr xs) = map_option (join (str '','')) (elemStrs xs)"
| "toStr (Obj kvs) =
     (if str ''toString'' \<in> fst ` set kvs then None else Some (str ''[object Object]''))"
| "elemStrs [] = Some []"
| "elemStrs (x # xs) =
     do {
       s \<leftarrow> (if x = Undefined \<or> x = Null then Some [] else toStr x);
       ss \<leftarrow> elemStrs xs;
       Some (s # ss)
     }"

text \<open>\<open>ToBoolean\<close>, as \<open>v ? a : b\<close> and \<open>v || b\<close> apply it.\<close>

fun truthy :: "jsval \<Rightarrow> bool" where
  "truthy Undefined = False"
| "truthy Null = False"
| "truthy (Bool b) = b"
| "truthy (Num n) = (Rep_jsint n \<noteq> 0)"
| "truthy (Str s) = (s \<noteq> [])"
| "truthy (Arr xs) = True"
| "truthy (Obj kvs) = True"

text \<open>
  \<open>v?.k\<close> and \<open>v.k\<close> for the property names \<open>k\<close> written in the formatters. None of
  them is a member of \<open>Object.prototype\<close>, \<open>Array.prototype\<close> or \<open>String.prototype\<close>, so
  on anything but an object holding the key the read gives \<open>undefined\<close>; \<open>v.k\<close> throws
  on \<open>null\<close> and \<open>undefined\<close>.
\<close>

fun optProp :: "jsval \<Rightarrow> string \<Rightarrow> jsval" where
  "optProp (Obj kvs) k = (case map_of kvs (str k) of None \<Rightarrow> Undefined | Some v \<Rightarrow> v)"
| "optProp v k = Undefined"

definition getProp :: "jsval \<Rightarrow> string \<Rightarrow> jsval option" where
  "getProp v k = (if v = Undefined \<or> v = Null then None else Some (optProp v k))"

text \<open>\<open>`${v.k}`\<close>: read the property, convert it to a string.\<close>

definition field :: "jsval \<Rightarrow> string \<Rightarrow> jsstring option" where
  "field v k = do { x \<leftarrow> getProp v k; toStr x }"

text \<open>
  \<open>Array.prototype.map\<close> with a callback that may throw: the first throw ends the call.
\<close>

primrec mapM :: "('a \<Rightarrow> 'b option) \<Rightarrow> 'a list \<Rightarrow> 'b list option" where
  "mapM f [] = Some []"
| "mapM f (x # xs) = do { y \<leftarrow> f x; ys \<leftarrow> mapM f xs; Some (y # ys) }"

text \<open>
  The method calls \<open>v.map(f)\<close>, \<open>v.join(sep)\<close> and \<open>v.toUpperCase()\<close> on a value read
  from a record. Only an array has \<open>map\<close> and \<open>join\<close>, only a string has \<open>toUpperCase\<close>;
  on every other value the call throws (the member is \<open>undefined\<close>, or an own JSON
  property, which is not a function). \<open>String.prototype.toUpperCase\<close> itself is the
  Unicode case mapping of the engine and is a parameter \<open>up\<close> of the formatters.
\<close>

definition mapMethod :: "jsval \<Rightarrow> (jsval \<Rightarrow> 'b option) \<Rightarrow> 'b list option" where
  "mapMethod v f = (case v of Arr xs \<Rightarrow> mapM f xs | _ \<Rightarrow> None)"

definition joinMethod :: "jsval \<Rightarrow> jsstring \<Rightarrow> jsstring option" where
  "joinMethod v sep = (case v of Arr xs \<Rightarrow> map_option (join sep) (elemStrs xs) | _ \<Rightarrow> None)"

definition toUpperCaseMethod :: "(jsstring \<Rightarrow> jsstring) \<Rightarrow> jsval \<Rightarrow> jsstring option" where
  "toUpperCaseMethod up v = (case v of Str s \<Rightarrow> Some (up s) | _ \<Rightarrow> None)"

section \<open>The formatters\<close>

subsection \<open>\<open>colorIcon\<close>\<close>

text \<open>
  \<open>colors\<close> is an object literal, so \<open>colors[color]\<close> finds the six own keys and, for
  any other key, what \<open>Object.prototype\<close> holds under that name. \<open>objectPrototype\<close> lists
  those members with the string a template literal makes of each: the source text of a
  built-in function (its exact spacing is the engine's; V8's is given) and
  \<open>[object Object]\<close> for the prototype object that \<open>__proto__\<close> reads. All of them are
  truthy, so \<open>||\<close> keeps them.
\<close>

definition colors :: "(jsstring \<times> jsstring) list" where
  "colors =
     [(str ''green'', str ''#00ff00''),
      (str ''orange'', str ''#ff9900''),
      (str ''red'', str ''#ff3333''),
      (str ''blue'', str ''#3399ff''),
      (str ''yellow'', str ''#ffff66''),
      (str ''white'', str ''#ffffff'')]"

definition nativeFn :: "string \<Rightarrow> jsstring" where
  "nativeFn name = str ''function '' @ str name @ str ''() { [native code] }''"

definition objectPrototype :: "(jsstring \<times> jsstring) list" where
  "objectPrototype =
     [(str ''constructor'', nativeFn ''Object''),
      (str ''__defineGetter__'', nativeFn ''__defineGetter__''),
      (str ''__defineSetter__'', nativeFn ''__defineSetter__''),
      (str ''hasOwnProperty'', nativeFn ''hasOwnProperty''),
      (str ''__lookupGetter__'', nativeFn ''__lookupGetter__''),
      (str ''__lookupSetter__'', nativeFn ''__lookupSetter__''),
      (str ''isPrototypeOf'', nativeFn ''isPrototypeOf''),
      (str ''propertyIsEnumerable'', nativeFn ''propertyIsEnumerable''),
      (str ''toString'', nativeFn ''toString''),
      (str ''valueOf'', nativeFn ''valueOf''),
      (str ''__proto__'', str ''[object Object]''),
      (str ''toLocaleString'', nativeFn ''toLocaleString'')]"

definition colorIcon :: "jsval \<Rightarrow> jsval \<Rightarrow> jsstring option" where
  \<open>colorIcon icon color =
     do {
       key \<leftarrow> toStr color;
       let hex = (case map_of colors key of
                    Some h \<Rightarrow> (if h \<noteq> [] then h else str ''#ffffff'')
                  | None \<Rightarrow>
                      (case map_of objectPrototype key of
                         Some m \<Rightarrow> m
                       | None \<Rightarrow> str ''#ffffff''));
       i \<leftarrow> toStr icon;
       Some (str ''<span style="color:'' @ hex @ str ''">'' @ i @ str ''</span>'')
     }\<close>

definition sectionSeparator :: jsstring where
  "sectionSeparator = str ''-----------------------------------------''"

subsection \<open>The five formatters without defaults\<close>

definition formatWhoami :: "jsval \<Rightarrow> jsstring option" where
  "formatWhoami data =
     do {
       name \<leftarrow> field data ''name'';
       role \<leftarrow> field data ''role'';
       text \<leftarrow> field data ''text'';
       Some (str ''\<newline>Nombre: '' @ name @ str ''\<newline>Rol: '' @ role
             @ str ''\<newline>\<newline>'' @ text @ str ''\<newline>'')
     }"

text \<open>\<open>`${colorIcon(item.icon, item.color)} ${item.text}`\<close>\<close>

definition iconLine :: "jsval \<Rightarrow> jsstring option" where
  "iconLine item =
     do {
       icon \<leftarrow> getProp item ''icon'';
       color \<leftarrow> getProp item ''color'';
       c \<leftarrow> colorIcon icon color;
       t \<leftarrow> field item ''text'';
       Some (c @ str '' '' @ t)
     }"

text \<open>\<open>`${t.icon ? colorIcon(t.icon, t.color) : "-"} ${t.text}`\<close>\<close>

definition dashLine :: "jsval \<Rightarrow> jsstring option" where
  "dashLine t =
     do {
       icon \<leftarrow> getProp t ''icon'';
       c \<leftarrow> (if truthy icon
            then do { color \<leftarrow> getProp t ''color''; colorIcon icon color }
            else Some (str ''-''));
       x \<leftarrow> field t ''text'';
       Some (c @ str '' '' @ x)
     }"

definition formatPerfil :: "(jsstring \<Rightarrow> jsstring) \<Rightarrow> jsval \<Rightarrow> jsstring option" where
  "formatPerfil up data =
     do {
       sp \<leftarrow> getProp data ''specialization'';
       ls \<leftarrow> mapMethod sp iconLine;
       let specialization = join (str ''\<newline>'') ls;
       gl \<leftarrow> getProp data ''goals'';
       gs \<leftarrow> mapMethod gl iconLine;
       let goals = join (str ''\<newline>'') gs;
       t \<leftarrow> getProp data ''title'';
       title \<leftarrow> toUpperCaseMethod up t;
       description \<leftarrow> field data ''description'';
       Some (str ''\<newline>=== '' @ title @ str '' ===\<newline>\<newline>'' @ description
             @ str ''\<newline>\<newline>=== ESPECIALIZACI'' @ O_acute @ str ''N ===\<newline>''
             @ specialization
             @ str ''\<newline>\<newline>=== OBJETIVOS ===\<newline>'' @ goals @ str ''\<newline>'')
     }"

definition estudiosItem :: "jsval \<Rightarrow> jsstring option" where
  "estudiosItem item =
     do {
       id \<leftarrow> field item ''id'';
       titulo \<leftarrow> field item ''titulo'';
       inicio \<leftarrow> field item ''inicio'';
       fin \<leftarrow> field item ''fin'';
       centro \<leftarrow> field item ''centro'';
       ubicacion \<leftarrow> field item ''ubicacion'';
       tm \<leftarrow> getProp item ''temas'';
       ts \<leftarrow> mapMethod tm (\<lambda>t. map_option (\<lambda>l. str ''     '' @ l) (dashLine t));
       Some (str ''\<newline>'' @ id @ str '' '' @ titulo @ str '' ('' @ inicio @ str '' - '' @ fin
             @ str '')\<newline>     '' @ bullet @ str '' Centro: '' @ centro
             @ str ''\<newline>     '' @ bullet @ str '' Ubicaci'' @ o_acute @ str ''n: '' @ ubicacion
             @ str ''\<newline>'' @ join (str ''\<newline>'') ts @ str ''\<newline>'')
     }"

definition formatEstudios :: "(jsstring \<Rightarrow> jsstring) \<Rightarrow> jsval \<Rightarrow> jsstring option" where
  "formatEstudios up data =
     do {
       t \<leftarrow> getProp data ''title'';
       title \<leftarrow> toUpperCaseMethod up t;
       its \<leftarrow> getProp data ''items'';
       blocks \<leftarrow> mapMethod its estudiosItem;
       Some (str ''\<newline>=== '' @ title @ str '' ===\<newline>''
             @ join (str ''\<newline>'') blocks @ str ''\<newline>'')
     }"

text \<open>
  \<open>`     ${colorIcon(group.icon, group.color)} ${group.title}: ${group.items.join(", ")}`\<close>
\<close>

definition stackLine :: "jsval \<Rightarrow> jsstring option" where
  "stackLine grp =
     do {
       icon \<leftarrow> getProp grp ''icon'';
       color \<leftarrow> getProp grp ''color'';
       c \<leftarrow> colorIcon icon color;
       title \<leftarrow> field grp ''title'';
       its \<leftarrow> getProp grp ''items'';
       items \<leftarrow> joinMethod its (str '', '');
       Some (str ''     '' @ c @ str '' '' @ title @ str '': '' @ items)
     }"

definition experienciaItem :: "jsval \<Rightarrow> jsstring option" where
  "experienciaItem item =
     do {
       id \<leftarrow> field item ''id'';
       puesto \<leftarrow> field item ''puesto'';
       inicio \<leftarrow> field item ''inicio'';
       fin \<leftarrow> field item ''fin'';
       empresa \<leftarrow> field item ''empresa'';
       ubicacion \<leftarrow> field item ''ubicacion'';
       rs \<leftarrow> getProp item ''responsabilidades'';
       responsabilidades \<leftarrow>
         mapMethod rs (\<lambda>r. map_option (\<lambda>l. str ''     '' @ l) (dashLine r));
       lg \<leftarrow> getProp item ''logros'';
       logros \<leftarrow> mapMethod lg (\<lambda>l. map_option (\<lambda>x. str ''     '' @ x) (iconLine l));
       sg \<leftarrow> getProp item ''stackGroups'';
       stack \<leftarrow> mapMethod sg stackLine;
       Some (str ''\<newline>'' @ id @ str '' '' @ puesto @ str '' ('' @ inicio @ str '' - '' @ fin
             @ str '')\<newline>     '' @ bullet @ str '' Empresa: '' @ empresa
             @ str ''\<newline>     '' @ bullet @ str '' Ubicaci'' @ o_acute @ str ''n: '' @ ubicacion
             @ str ''\<newline>\<newline>     '' @ bullet @ str '' Responsabilidades:\<newline>''
             @ join (str ''\<newline>'') responsabilidades
             @ str ''\<newline>\<newline>     '' @ bullet @ str '' Logros:\<newline>''
             @ join (str ''\<newline>'') logros
             @ str ''\<newline>\<newline>     '' @ bullet @ str '' Stack:\<newline>''
             @ join (str ''\<newline>'') stack @ str ''\<newline>'')
     }"

definition formatExperiencia :: "(jsstring \<Rightarrow> jsstring) \<Rightarrow> jsval \<Rightarrow> jsstring option" where
  "formatExperiencia up data =
     do {
       t \<leftarrow> getProp data ''title'';
       title \<leftarrow> toUpperCaseMethod up t;
       its \<leftarrow> getProp data ''items'';
       blocks \<leftarrow> mapMethod its experienciaItem;
       Some (str ''\<newline>=== '' @ title @ str '' ===\<newline>''
             @ join (str ''\<newline>'') blocks @ str ''\<newline>'')
     }"

definition skillsCategory :: "jsval \<Rightarrow> jsstring option" where
  "skillsCategory cat =
     do {
       nombre \<leftarrow> field cat ''nombre'';
       its \<leftarrow> getProp cat ''items'';
       items \<leftarrow> mapMethod its dashLine;
       Some (str ''\<newline>'' @ nombre @ str ''\<newline>'' @ join (str ''\<newline>'') items
             @ str ''\<newline>'')
     }"

definition formatSkills :: "(jsstring \<Rightarrow> jsstring) \<Rightarrow> jsval \<Rightarrow> jsstring option" where
  "formatSkills up data =
     do {
       t \<leftarrow> getProp data ''title'';
       title \<leftarrow> toUpperCaseMethod up t;
       cs \<leftarrow> getProp data ''categorias'';
       blocks \<leftarrow> mapMethod cs skillsCategory;
       Some (str ''\<newline>=== '' @ title @ str '' ===\<newline>''
             @ join (str ''\<newline>'') blocks @ str ''\<newline>'')
     }"

subsection \<open>The two formatters with defaults\<close>

text \<open>
  \<open>formatCertificaciones\<close> and \<open>formatContacto\<close> exist in two versions in the repository.
  The module modelled here is the one whose versions coerce their input with \<open>safeList\<close>
  and \<open>safeStr\<close>; everything above is the same text in both modules.
\<close>

definition safeList :: "jsval \<Rightarrow> jsval list" where
  "safeList v = (case v of Arr xs \<Rightarrow> xs | _ \<Rightarrow> [])"

definition safeStr :: "jsval \<Rightarrow> jsstring" where
  "safeStr v = (case v of Str s \<Rightarrow> s | _ \<Rightarrow> [])"

text \<open>\<open>a || b\<close> on strings: the empty string is the only falsy one.\<close>

definition orElse :: "jsstring \<Rightarrow> jsstring \<Rightarrow> jsstring" where
  "orElse a b = (if a \<noteq> [] then a else b)"

text \<open>\<open>x?.icon ? colorIcon(x.icon, x.color) : "-"\<close>\<close>

definition iconOrDash :: "jsval \<Rightarrow> jsstring option" where
  "iconOrDash x =
     (if truthy (optProp x ''icon'')
      then colorIcon (optProp x ''icon'') (optProp x ''color'')
      else Some (str ''-''))"

definition renderCert :: "jsval \<Rightarrow> jsstring option" where
  \<open>renderCert c =
     do {
       let nombre = safeStr (optProp c ''nombre'');
       let anio = safeStr (optProp c ''anio'');
       let id = safeStr (optProp c ''id'');
       let url = safeStr (optProp c ''url'');
       let detalles = safeList (optProp c ''detalles'');
       icon \<leftarrow> iconOrDash c;
       ds \<leftarrow> mapM (\<lambda>d. map_option (\<lambda>s. str ''       - '' @ s) (toStr d)) detalles;
       Some (str ''     '' @ icon @ str '' '' @ nombre
             @ (if anio \<noteq> [] then str '' ('' @ anio @ str '')'' else [])
             @ (if id \<noteq> [] then str ''\<newline>       ID: '' @ id else [])
             @ (if url \<noteq> []
                then str ''\<newline>       URL: <a href="'' @ url
                     @ str ''" target="_blank" rel="noopener noreferrer">'' @ url @ str ''</a>''
                else [])
             @ (if detalles \<noteq> [] then str ''\<newline>'' @ join (str ''\<newline>'') ds else []))
     }\<close>

definition objetivoLine :: "jsval \<Rightarrow> jsstring option" where
  "objetivoLine ob =
     do {
       icon \<leftarrow> iconOrDash ob;
       Some (str ''     '' @ icon @ str '' '' @ safeStr (optProp ob ''nombre''))
     }"

definition formatCertificaciones :: "(jsstring \<Rightarrow> jsstring) \<Rightarrow> jsval \<Rightarrow> jsstring option" where
  "formatCertificaciones up data =
     do {
       let title = up (safeStr (optProp data ''title''));
       obtenidas \<leftarrow> mapM renderCert (safeList (optProp data ''obtenidas''));
       enPreparacion \<leftarrow> mapM renderCert (safeList (optProp data ''enPreparacion''));
       objetivos \<leftarrow> mapM objetivoLine (safeList (optProp data ''objetivos''));
       Some (str ''\<newline>=== '' @ title @ str '' ===\<newline>\<newline>''
             @ bullet @ str '' OBTENIDAS:\<newline>''
             @ orElse (join (str ''\<newline>\<newline>'') obtenidas) (str ''     -'')
             @ str ''\<newline>\<newline>'' @ bullet @ str '' EN CURSO:\<newline>''
             @ orElse (join (str ''\<newline>\<newline>'') enPreparacion) (str ''     -'')
             @ str ''\<newline>\<newline>'' @ bullet @ str '' OBJETIVOS:\<newline>''
             @ orElse (join (str ''\<newline>'') objetivos) (str ''     -'')
             @ str ''\<newline>'')
     }"

text \<open>The \<open>linkify\<close> local to \<open>formatContacto\<close>, which shadows the module's own.\<close>

definition linkify :: "jsval \<Rightarrow> jsstring" where
  \<open>linkify v' =
     (let v = safeStr v'
      in if prefix (str ''http://'') v \<or> prefix (str ''https://'') v
         then str ''<a href="'' @ v @ str ''" target="_blank" rel="noopener noreferrer">'' @ v
              @ str ''</a>''
         else v)\<close>

definition contactoItem :: "jsval \<Rightarrow> jsstring option" where
  "contactoItem i =
     do {
       icon \<leftarrow> iconOrDash i;
       let label = safeStr (optProp i ''label'');
       let v = linkify (optProp i ''value'');
       Some (str ''     '' @ icon @ str '' '' @ label @ str '': '' @ v)
     }"

definition disponibilidadLine :: "jsval \<Rightarrow> jsstring option" where
  "disponibilidadLine d =
     do {
       icon \<leftarrow> iconOrDash d;
       Some (str ''     '' @ icon @ str '' '' @ safeStr (optProp d ''text''))
     }"

definition formatContacto :: "(jsstring \<Rightarrow> jsstring) \<Rightarrow> jsval \<Rightarrow> jsstring option" where
  "formatContacto up data =
     do {
       ls \<leftarrow> mapM contactoItem (safeList (optProp data ''items''));
       let items = join (str ''\<newline>'') ls;
       ds \<leftarrow> mapM disponibilidadLine (safeList (optProp data ''disponibilidad''));
       let disp = join (str ''\<newline>'') ds;
       Some (str ''\<newline>=== '' @ up (safeStr (optProp data ''title'')) @ str '' ===\<newline>\<newline>''
             @ orElse items (str ''     -'')
             @ str ''\<newline>\<newline>''
             @ (if disp \<noteq> []
                then str ''\<newline>'' @ bullet @ str '' DISPONIBILIDAD:\<newline>'' @ disp
                else [])
             @ str ''\<newline>'')
     }"

text \<open>\<open>text.replace(/\n/g, "<br>")\<close> on a string.\<close>

definition textToHtml :: "jsstring \<Rightarrow> jsstring" where
  "textToHtml text = concat (map (\<lambda>c. if c = 0x0A then str ''<br>'' else [c]) text)"

section \<open>The terminal hook\<close>

text \<open>The JSON modules the hook imports; \<open>ascii.json\<close> is typed by its three strings.\<close>

record store =
  whoami :: jsval
  perfil :: jsval
  estudios :: jsval
  experiencia :: jsval
  skills :: jsval
  certificaciones :: jsval
  contacto :: jsval

record ascii =
  bannerDesktop :: jsstring
  bannerMobile :: jsstring
  bannerTablet :: jsstring

datatype OutputType = raw | html

record OutputItem =
  type :: OutputType
  content :: jsstring

record tstate =
  "output" :: "OutputItem list"
  isTyping :: bool
  isTypingCommand :: bool
  hasInteracted :: bool

text \<open>The state of the first render, for a window \<open>width\<close> pixels wide.\<close>

definition useTerminal :: "ascii \<Rightarrow> int \<Rightarrow> tstate" where
  "useTerminal asc width =
     (let initialBanner =
            (if width < 640 then bannerMobile asc
             else if width < 1024 then bannerTablet asc
             else bannerDesktop asc)
      in \<lparr>output = [\<lparr>type = raw, content = initialBanner\<rparr>],
          isTyping = False, isTypingCommand = False, hasInteracted = False\<rparr>)"

text \<open>
  A run of the hook is the list of states it has left behind and the state it is in.
  Every call of a state setter moves the current state to the history and installs the
  new one; an updater function is applied to the latest state, as \<open>useState\<close> does.
\<close>

type_synonym run = "tstate list \<times> tstate"

definition states :: "run \<Rightarrow> tstate list" where
  "states r = fst r @ [snd r]"

definition setState :: "(tstate \<Rightarrow> tstate) \<Rightarrow> run \<Rightarrow> run" where
  "setState f r = (fst r @ [snd r], f (snd r))"

definition setOutput :: "(OutputItem list \<Rightarrow> OutputItem list) \<Rightarrow> run \<Rightarrow> run" where
  "setOutput f = setState (\<lambda>s. s\<lparr>output := f (output s)\<rparr>)"

definition setIsTyping :: "bool \<Rightarrow> run \<Rightarrow> run" where
  "setIsTyping b = setState (\<lambda>s. s\<lparr>isTyping := b\<rparr>)"

definition setIsTypingCommand :: "bool \<Rightarrow> run \<Rightarrow> run" where
  "setIsTypingCommand b = setState (\<lambda>s. s\<lparr>isTypingCommand := b\<rparr>)"

definition setHasInteracted :: "bool \<Rightarrow> run \<Rightarrow> run" where
  "setHasInteracted b = setState (\<lambda>s. s\<lparr>hasInteracted := b\<rparr>)"

definition clear :: "run \<Rightarrow> run" where
  "clear = setOutput (\<lambda>prev. [])"

definition print :: "jsstring \<Rightarrow> OutputType \<Rightarrow> run \<Rightarrow> run" where
  "print text ty = setOutput (\<lambda>prev. prev @ [\<lparr>type = ty, content = text\<rparr>])"

definition promptStart :: jsstring where
  \<open>promptStart =
     str ''<div class="font-mono text-sm leading-tight">''
     @ str ''<div class="text-[var(--red-accent)]">''
     @ [0x250C, 0x2500, 0x2500] @ str ''(<span class="text-[var(--white-soft)]">kali</span>''
     @ str ''<span class="text-[var(--red-soft)]">'' @ [0x327F] @ str ''</span>''
     @ str ''<span class="text-[var(--white-soft)]">portfolio</span>)-[''
     @ str ''<span class="text-[var(--white-soft)]">~</span>]</div>''
     @ str ''<div class="flex items-center">''
     @ str ''<span class="text-[var(--red-accent)]">'' @ [0x2514, 0x2500] @ str ''$</span>''
     @ str ''<span class="ml-2 text-[var(--white-soft)]">''\<close>

definition promptEnd :: jsstring where
  "promptEnd = str ''</span></div></div>''"

text \<open>
  \<open>updated[updated.length - 1] = item\<close> on a copy of the list. On an empty list the index
  is \<open>-1\<close>: the assignment makes a property of that name and the list stays empty.
\<close>

definition replaceLast :: "'a list \<Rightarrow> 'a \<Rightarrow> 'a list" where
  "replaceLast prev item = (if prev = [] then [] else prev[length prev - 1 := item])"

text \<open>The entry under animation: \<open>{ type: "html", content: promptStart + typed + promptEnd }\<close>.\<close>

definition promptItem :: "jsstring \<Rightarrow> OutputItem" where
  "promptItem typed = \<lparr>type = html, content = promptStart @ typed @ promptEnd\<rparr>"

function typeLoop :: "jsstring \<Rightarrow> nat \<Rightarrow> run \<Rightarrow> run" where
  "typeLoop cmd i r =
     (if i < length cmd
      then let typed = take (i + 1) cmd
           in typeLoop cmd (i + 1) (setOutput (\<lambda>prev. replaceLast prev (promptItem typed)) r)
      else r)"
  by pat_completeness auto
termination
  by (relation "measure (\<lambda>(cmd, i, r). length cmd - i)") auto

declare typeLoop.simps [simp del]

definition typeCommand :: "jsstring \<Rightarrow> run \<Rightarrow> run" where
  "typeCommand cmd r0 =
     (let r1 = setIsTyping True r0;
          r2 = setIsTypingCommand True r1;
          r3 = setOutput (\<lambda>prev. prev @ [promptItem []]) r2;
          r4 = typeLoop cmd 0 r3;
          r5 = setIsTyping False r4
      in setIsTypingCommand False r5)"

definition generateAllInfo :: "(jsstring \<Rightarrow> jsstring) \<Rightarrow> store \<Rightarrow> jsstring option" where
  "generateAllInfo up st =
     do {
       w \<leftarrow> formatWhoami (whoami st);
       p \<leftarrow> formatPerfil up (perfil st);
       e \<leftarrow> formatEstudios up (estudios st);
       x \<leftarrow> formatExperiencia up (experiencia st);
       s \<leftarrow> formatSkills up (skills st);
       c \<leftarrow> formatCertificaciones up (certificaciones st);
       k \<leftarrow> formatContacto up (contacto st);
       Some (str ''\<newline>'' @ w @ str ''\<newline>'' @ sectionSeparator @ str ''\<newline>\<newline>''
             @ p @ str ''\<newline>'' @ sectionSeparator @ str ''\<newline>\<newline>''
             @ e @ str ''\<newline>'' @ sectionSeparator @ str ''\<newline>\<newline>''
             @ x @ str ''\<newline>'' @ sectionSeparator @ str ''\<newline>\<newline>''
             @ s @ str ''\<newline>'' @ sectionSeparator @ str ''\<newline>\<newline>''
             @ c @ str ''\<newline>'' @ sectionSeparator @ str ''\<newline>\<newline>''
             @ k @ str ''\<newline>'')
     }"

text \<open>
  The \<open>switch\<close> of \<open>runCommand\<close>: the argument of the \<open>print\<close> call it selects. \<open>===\<close>
  on two strings compares their code units.
\<close>

definition commandOutput :: "(jsstring \<Rightarrow> jsstring) \<Rightarrow> store \<Rightarrow> jsstring \<Rightarrow> jsstring option" where
  "commandOutput up st cmd =
     (if cmd = str ''whoami'' then formatWhoami (whoami st)
      else if cmd = str ''cat profile.txt'' then formatPerfil up (perfil st)
      else if cmd = str ''cat edu.txt'' then formatEstudios up (estudios st)
      else if cmd = str ''cat exp.txt'' then formatExperiencia up (experiencia st)
      else if cmd = str ''cat skills.txt'' then formatSkills up (skills st)
      else if cmd = str ''cat certs.txt'' then formatCertificaciones up (certificaciones st)
      else if cmd = str ''cat contact.txt'' then formatContacto up (contacto st)
      else if cmd = str ''whoami && cat *.txt'' then generateAllInfo up st
      else Some (textToHtml (str ''Comando no encontrado: '' @ cmd)))"

text \<open>
  \<open>typeCommand\<close> and \<open>runCommand\<close> are async functions. At every \<open>await\<close> the call gives
  the thread back, and what else is pending runs before it goes on: the timer of another
  call, a click that starts one, a call of \<open>clear\<close>. Nothing in the hook keeps a second
  \<open>runCommand\<close> from starting while one is under way. A task is what is left of a call:
  its setter calls in program order, with the awaits between them. The control flow of
  the two functions reads no state, so a task is known when the call starts.
\<close>

datatype action = Call "run \<Rightarrow> run" | Await

text \<open>The loop of \<open>typeCommand\<close>: one replacement and one \<open>await\<close> of the 40 ms timer per character.\<close>

function typeLoopActions :: "jsstring \<Rightarrow> nat \<Rightarrow> action list" where
  "typeLoopActions cmd i =
     (if i < length cmd
      then let typed = take (i + 1) cmd
           in Call (setOutput (\<lambda>prev. replaceLast prev (promptItem typed))) # Await
                # typeLoopActions cmd (i + 1)
      else [])"
  by pat_completeness auto
termination
  by (relation "measure (\<lambda>(cmd, i). length cmd - i)") auto

declare typeLoopActions.simps [simp del]

definition typeCommandActions :: "jsstring \<Rightarrow> action list" where
  "typeCommandActions cmd =
     [Call (setIsTyping True),
      Call (setIsTypingCommand True),
      Call (setOutput (\<lambda>prev. prev @ [promptItem []]))]
     @ typeLoopActions cmd 0
     @ [Call (setIsTyping False),
        Call (setIsTypingCommand False)]"

text \<open>
  \<open>runCommand\<close>: the two setter calls, \<open>await typeCommand(cmd)\<close>, then the \<open>switch\<close>. When the
  selected formatter throws, the call ends there: its promise is rejected and nothing is
  printed.
\<close>

definition runCommandActions :: "(jsstring \<Rightarrow> jsstring) \<Rightarrow> store \<Rightarrow> jsstring \<Rightarrow> action list" where
  "runCommandActions up st cmd =
     [Call (setHasInteracted True),
      Call clear]
     @ typeCommandActions cmd
     @ [Await]
     @ (case commandOutput up st cmd of
          None \<Rightarrow> []
        | Some text \<Rightarrow> [Call (print text html)])"

text \<open>One turn of a task: its setter calls up to its next \<open>await\<close>, or to its end.\<close>

fun runSegment :: "action list \<Rightarrow> run \<Rightarrow> action list \<times> run" where
  "runSegment [] r = ([], r)"
| "runSegment (Await # as) r = (as, r)"
| "runSegment (Call f # as) r = runSegment as (f r)"

text \<open>
  A schedule names, turn by turn, the task that runs: the order in which the clicks and
  the timers come. A task that has ended, or a number that names none, passes its turn.
\<close>

fun interleave :: "nat list \<Rightarrow> action list list \<Rightarrow> run \<Rightarrow> action list list \<times> run" where
  "interleave [] ts r = (ts, r)"
| "interleave (i # sched) ts r =
     (if i < length ts
      then interleave sched (ts[i := fst (runSegment (ts ! i) r)]) (snd (runSegment (ts ! i) r))
      else interleave sched ts r)"

text \<open>A task on its own: no other task takes a turn between its segments.\<close>

fun alone :: "action list \<Rightarrow> run \<Rightarrow> run" where
  "alone [] r = r"
| "alone (Await # as) r = alone as r"
| "alone (Call f # as) r = alone as (f r)"

fun awaits :: "action list \<Rightarrow> nat" where
  "awaits [] = 0"
| "awaits (Await # as) = Suc (awaits as)"
| "awaits (Call f # as) = awaits as"

text \<open>
  \<open>runCommand\<close> on its own, with the way its promise ends. \<open>typeCommand\<close> above is the
  animation on its own in the same sense.
\<close>

datatype outcome = Fulfilled | Rejected

definition runCommand :: "(jsstring \<Rightarrow> jsstring) \<Rightarrow> store \<Rightarrow> jsstring \<Rightarrow> run \<Rightarrow> outcome \<times> run" where
  "runCommand up st cmd r0 =
     (case commandOutput up st cmd of None \<Rightarrow> Rejected | Some text \<Rightarrow> Fulfilled,
      alone (runCommandActions up st cmd) r0)"

section \<open>Notions the claims are stated with\<close>

text \<open>The fixed command vocabulary.\<close>

definition vocabulary :: "jsstring list" where
  "vocabulary =
     [str ''whoami'', str ''cat profile.txt'', str ''cat edu.txt'', str ''cat exp.txt'',
      str ''cat skills.txt'', str ''cat certs.txt'', str ''cat contact.txt'',
      str ''whoami && cat *.txt'']"

text \<open>
  The composite output as the specification words it: the seven formatter outputs, in
  order, joined by the separator string and nothing else.
\<close>

definition allInfoSpec :: "(jsstring \<Rightarrow> jsstring) \<Rightarrow> store \<Rightarrow> jsstring option" where
  "allInfoSpec up st =
     do {
       w \<leftarrow> formatWhoami (whoami st);
       p \<leftarrow> formatPerfil up (perfil st);
       e \<leftarrow> formatEstudios up (estudios st);
       x \<leftarrow> formatExperiencia up (experiencia st);
       s \<leftarrow> formatSkills up (skills st);
       c \<leftarrow> formatCertificaciones up (certificaciones st);
       k \<leftarrow> formatContacto up (contacto st);
       Some (join sectionSeparator [w, p, e, x, s, c, k])
     }"

text \<open>
  A value is plain when no object in it has an own property named \<open>toString\<close>: these
  are the values every part of which converts to a string.
\<close>

fun plain :: "jsval \<Rightarrow> bool"
  and plainList :: "jsval list \<Rightarrow> bool"
  and plainProps :: "(jsstring \<times> jsval) list \<Rightarrow> bool" where
  "plain (Arr xs) = plainList xs"
| "plain (Obj kvs) = plainProps kvs"
| "plain v = True"
| "plainList [] = True"
| "plainList (x # xs) = (plain x \<and> plainList xs)"
| "plainProps [] = True"
| "plainProps (kv # kvs) = (fst kv \<noteq> str ''toString'' \<and> plain (snd kv) \<and> plainProps kvs)"

subsection \<open>Example values\<close>

text \<open>An upper-casing of the ASCII letters, to run the formatters on examples.\<close>

definition upperASCII :: "jsstring \<Rightarrow> jsstring" where
  "upperASCII s = map (\<lambda>c. if 0x61 \<le> c \<and> c \<le> 0x7A then c - 0x20 else c) s"

definition obj :: "(string \<times> jsval) list \<Rightarrow> jsval" where
  "obj kvs = Obj (map (\<lambda>kv. (str (fst kv), snd kv)) kvs)"

definition S :: "string \<Rightarrow> jsval" where
  "S s = Str (str s)"

definition exampleStore :: store where
  "exampleStore =
     \<lparr>whoami = obj [(''name'', S ''Robert''), (''role'', S ''Pentester''), (''text'', S ''Hola'')],
      perfil = obj [(''title'', S ''Perfil''), (''description'', S ''Red Team''),
                    (''specialization'',
                       Arr [obj [(''icon'', S ''[+]''), (''color'', S ''green''), (''text'', S ''Web'')]]),
                    (''goals'', Arr [])],
      estudios = obj [(''title'', S ''Estudios''),
                      (''items'',
                         Arr [obj [(''id'', S ''[1]''), (''titulo'', S ''ASIR''), (''inicio'', num 2020),
                                   (''fin'', num 2022), (''centro'', S ''IES''), (''ubicacion'', S ''Madrid''),
                                   (''temas'', Arr [obj [(''text'', S ''Redes'')]])]])],
      experiencia = obj [(''title'', S ''Experiencia''), (''items'', Arr [])],
      skills = obj [(''title'', S ''Skills''),
                    (''categorias'',
                       Arr [obj [(''nombre'', S ''Security''),
                                 (''items'', Arr [obj [(''text'', S ''nmap'')]])]])],
      certificaciones = obj [(''title'', S ''Certs''),
                             (''obtenidas'',
                                Arr [obj [(''nombre'', S ''eJPT''), (''anio'', S ''2024''),
                                          (''detalles'', Arr [S ''INE''])]]),
                             (''objetivos'', Arr [])],
      contacto = obj [(''title'', S ''Contacto''),
                      (''items'', Arr [obj [(''label'', S ''Web''), (''value'', S ''https://a.b'')]])]\<rparr>"

definition exampleAscii :: ascii where
  "exampleAscii = \<lparr>bannerDesktop = str ''DESKTOP'', bannerMobile = str ''MOBILE'',
                    bannerTablet = str ''TABLET''\<rparr>"

text \<open>
  Two clicks: \<open>whoami\<close>, and \<open>ls\<close> while the first animation is under way; and the run
  of the hook that starts at the first render on a desktop window.
\<close>

definition twoClicks :: "action list list" where
  "twoClicks =
     [runCommandActions upperASCII exampleStore (str ''whoami''),
      runCommandActions upperASCII exampleStore (str ''ls'')]"

definition firstRender :: run where
  "firstRender = ([], useTerminal exampleAscii 1280)"

section \<open>Facts about strings\<close>

lemma str_Nil [simp]: "str [] = []"
  by (simp add: str_def)

lemma str_eq_Nil [simp]: "str s = [] \<longleftrightarrow> s = []" "[] = str s \<longleftrightarrow> s = []"
  by (auto simp: str_def)

lemma str_append: "str a @ str b = str (a @ b)"
  by (simp add: str_def)

lemma length_str [simp]: "length (str s) = length s"
  by (simp add: str_def)

lemma unat_of_char: "unat (of_char c :: 16 word) = of_char c"
  by (cases c) simp

text \<open>Two ASCII literals are the same JavaScript string only if they are the same text.\<close>

lemma str_inj [simp]: "str a = str b \<longleftrightarrow> a = b"
proof
  assume h: "str a = str b"
  have "map (unat :: 16 word \<Rightarrow> nat) (str a) = map unat (str b)"
    using h by simp
  then have "map (of_char :: char \<Rightarrow> nat) a = map of_char b"
    by (simp add: str_def comp_def unat_of_char)
  then show "a = b"
    using inj_of_char [where ?'a = nat] by (simp add: inj_map_eq_map)
qed simp

lemma Rep_jsint_Abs: "- (2 ^ 53) \<le> i \<Longrightarrow> i \<le> 2 ^ 53 \<Longrightarrow> Rep_jsint (Abs_jsint i) = i"
  by (simp add: Abs_jsint_inverse)

lemma textToHtml_append: "textToHtml (a @ b) = textToHtml a @ textToHtml b"
  by (simp add: textToHtml_def)

lemma textToHtml_no_newline: "0x0A \<notin> set (textToHtml s)"
  by (induction s) (auto simp: textToHtml_def str_def)

lemma textToHtml_id: "0x0A \<notin> set s \<Longrightarrow> textToHtml s = s"
  by (induction s) (auto simp: textToHtml_def)

lemma marker_no_newline: "0x0A \<notin> set (str ''Comando no encontrado: '')"
  by (simp add: str_def)

lemma textToHtml_marker:
  "textToHtml (str ''Comando no encontrado: '' @ cmd)
     = str ''Comando no encontrado: '' @ textToHtml cmd"
  by (simp add: textToHtml_append textToHtml_id marker_no_newline)

lemma sublist_newline:
  "sublist cmd (str ''Comando no encontrado: '' @ textToHtml cmd) \<longleftrightarrow> 0x0A \<notin> set cmd"
proof
  assume "sublist cmd (str ''Comando no encontrado: '' @ textToHtml cmd)"
  then have "set cmd \<subseteq> set (str ''Comando no encontrado: '' @ textToHtml cmd)"
    by (rule set_mono_sublist)
  then show "0x0A \<notin> set cmd"
    using marker_no_newline textToHtml_no_newline[of cmd] by auto
next
  assume "0x0A \<notin> set cmd"
  then show "sublist cmd (str ''Comando no encontrado: '' @ textToHtml cmd)"
    by (simp add: textToHtml_id)
qed

section \<open>The terminal state\<close>

text \<open>
  Claim C9. \<open>clear\<close> installs a state whose output history is the empty list; the flags
  \<open>isTyping\<close>, \<open>isTypingCommand\<close> and \<open>hasInteracted\<close> keep the values they had.
\<close>

theorem clear_only_output:
  "output (snd (clear r)) = []
   \<and> isTyping (snd (clear r)) = isTyping (snd r)
   \<and> isTypingCommand (snd (clear r)) = isTypingCommand (snd r)
   \<and> hasInteracted (snd (clear r)) = hasInteracted (snd r)
   \<and> snd (clear r) = (snd r)\<lparr>output := []\<rparr>"
  by (simp add: clear_def setOutput_def setState_def)

text \<open>
  Claim C10. Before any command the history is not empty: it is the one \<open>raw\<close> entry
  holding the banner for the window width (mobile below 640, tablet below 1024, desktop
  otherwise), and the three flags are false.
\<close>

theorem useTerminal_initial_state:
  "useTerminal asc width =
     \<lparr>output =
        [\<lparr>type = raw,
          content = (if width < 640 then bannerMobile asc
                     else if width < 1024 then bannerTablet asc
                     else bannerDesktop asc)\<rparr>],
      isTyping = False, isTypingCommand = False, hasInteracted = False\<rparr>
   \<and> output (useTerminal asc width) \<noteq> []"
  by (simp add: useTerminal_def)

section \<open>The typing animation\<close>

lemma replaceLast_snoc [simp]: "replaceLast (pre @ [e]) x = pre @ [x]"
  by (simp add: replaceLast_def)

text \<open>
  The loop from index \<open>i\<close>, entered in a state whose history ends with the entry under
  animation: it leaves one state per remaining character.
\<close>

lemma typeLoop_trace:
  "i \<le> length cmd \<Longrightarrow> output s = pre @ [e] \<Longrightarrow>
   typeLoop cmd i (h, s) =
     (if i = length cmd then (h, s)
      else (h @ [s]
              @ map (\<lambda>k. s\<lparr>output := pre @ [promptItem (take k cmd)]\<rparr>) [Suc i..<length cmd],
            s\<lparr>output := pre @ [promptItem cmd]\<rparr>))"
proof (induction cmd i "(h, s)" arbitrary: h s e rule: typeLoop.induct)
  case (1 cmd i)
  show ?case
  proof (cases "i < length cmd")
    case False
    with "1.prems" show ?thesis by (simp add: typeLoop.simps)
  next
    case True
    let ?s' = "s\<lparr>output := pre @ [promptItem (take (i + 1) cmd)]\<rparr>"
    have step: "setOutput (\<lambda>prev. replaceLast prev (promptItem (take (i + 1) cmd))) (h, s)
                  = (h @ [s], ?s')"
      using "1.prems" by (simp add: setOutput_def setState_def)
    have IH: "typeLoop cmd (i + 1) (h @ [s], ?s') =
      (if i + 1 = length cmd then (h @ [s], ?s')
       else ((h @ [s]) @ [?s']
               @ map (\<lambda>k. ?s'\<lparr>output := pre @ [promptItem (take k cmd)]\<rparr>)
                   [Suc (i + 1)..<length cmd],
             ?s'\<lparr>output := pre @ [promptItem cmd]\<rparr>))"
      using "1.hyps"[OF True refl step, of "promptItem (take (i + 1) cmd)"] True
      by simp
    have unf: "typeLoop cmd i (h, s) = typeLoop cmd (i + 1) (h @ [s], ?s')"
      using True step by (subst typeLoop.simps) (simp add: Let_def)
    show ?thesis
    proof (cases "i + 1 = length cmd")
      case True
      then show ?thesis using unf IH by simp
    next
      case False
      then have "Suc i < length cmd" using True by simp
      then have "[Suc i..<length cmd] = Suc i # [Suc (Suc i)..<length cmd]"
        by (simp add: upt_conv_Cons)
      then show ?thesis using unf IH False True by simp
    qed
  qed
qed

lemma typeCommand_trace:
  "typeCommand cmd (h, s) =
     (h @ [s, s\<lparr>isTyping := True\<rparr>, s\<lparr>isTyping := True, isTypingCommand := True\<rparr>]
        @ map (\<lambda>k. s\<lparr>output := output s @ [promptItem (take k cmd)],
                       isTyping := True, isTypingCommand := True\<rparr>) [0..<Suc (length cmd)]
        @ [s\<lparr>output := output s @ [promptItem cmd], isTyping := False, isTypingCommand := True\<rparr>],
      s\<lparr>output := output s @ [promptItem cmd], isTyping := False, isTypingCommand := False\<rparr>)"
proof -
  let ?b = "s\<lparr>isTyping := True, isTypingCommand := True\<rparr>"
  let ?s3 = "?b\<lparr>output := output s @ [promptItem []]\<rparr>"
  let ?h3 = "h @ [s, s\<lparr>isTyping := True\<rparr>, ?b]"
  have r3: "setOutput (\<lambda>prev. prev @ [promptItem []])
              (setIsTypingCommand True (setIsTyping True (h, s))) = (?h3, ?s3)"
    by (simp add: setOutput_def setIsTypingCommand_def setIsTyping_def setState_def)
  have loop: "typeLoop cmd 0 (?h3, ?s3) =
     (?h3 @ map (\<lambda>k. ?b\<lparr>output := output s @ [promptItem (take k cmd)]\<rparr>) [0..<length cmd],
      ?b\<lparr>output := output s @ [promptItem cmd]\<rparr>)"
  proof (cases "length cmd = 0")
    case True
    then show ?thesis
      using typeLoop_trace[of 0 cmd ?s3 "output s" "promptItem []" ?h3] by simp
  next
    case False
    then have up: "[0..<length cmd] = 0 # [Suc 0..<length cmd]"
      by (simp add: upt_conv_Cons)
    show ?thesis
      using typeLoop_trace[of 0 cmd ?s3 "output s" "promptItem []" ?h3] False
      by (simp add: up)
  qed
  show ?thesis
    unfolding typeCommand_def Let_def r3 loop
    by (simp add: setIsTypingCommand_def setIsTyping_def setState_def)
qed


text \<open>The animation of \<open>ls\<close>, run step by step from a cleared terminal.\<close>

lemma typeCommand_ls:
  "map (\<lambda>t. (map content (output t), isTyping t, isTypingCommand t))
       (states (typeCommand (str ''ls'') ([], \<lparr>output = [], isTyping = False,
                  isTypingCommand = False, hasInteracted = True\<rparr>))) =
     [([], False, False),
      ([], True, False),
      ([], True, True),
      ([promptStart @ promptEnd], True, True),
      ([promptStart @ str ''l'' @ promptEnd], True, True),
      ([promptStart @ str ''ls'' @ promptEnd], True, True),
      ([promptStart @ str ''ls'' @ promptEnd], False, True),
      ([promptStart @ str ''ls'' @ promptEnd], False, False)]"
  by (simp add: typeCommand_def typeLoop.simps setOutput_def setIsTyping_def
      setIsTypingCommand_def setState_def states_def replaceLast_def promptItem_def Let_def
      str_def)

section \<open>Running a command\<close>

text \<open>Run on its own, a task is the sequence of its setter calls.\<close>

lemma alone_append: "alone (as @ bs) r = alone bs (alone as r)"
  by (induction as r rule: alone.induct) simp_all

lemma alone_typeLoopActions: "alone (typeLoopActions cmd i) r = typeLoop cmd i r"
proof (induction cmd i r rule: typeLoop.induct)
  case (1 cmd i r)
  show ?case
  proof (cases "i < length cmd")
    case True
    have a: "typeLoopActions cmd i =
        Call (setOutput (\<lambda>prev. replaceLast prev (promptItem (take (i + 1) cmd)))) # Await
          # typeLoopActions cmd (i + 1)"
      using True by (subst typeLoopActions.simps) (simp add: Let_def)
    have b: "typeLoop cmd i r =
        typeLoop cmd (i + 1)
          (setOutput (\<lambda>prev. replaceLast prev (promptItem (take (i + 1) cmd))) r)"
      using True by (subst typeLoop.simps) (simp add: Let_def)
    show ?thesis
      unfolding a b using "1.IH"[OF True refl] by simp
  next
    case False
    then show ?thesis
      by (simp add: typeLoopActions.simps typeLoop.simps)
  qed
qed

lemma alone_typeCommandActions: "alone (typeCommandActions cmd) r = typeCommand cmd r"
  by (simp add: typeCommandActions_def typeCommand_def alone_append alone_typeLoopActions Let_def)

lemma runCommand_alone:
  "runCommand up st cmd r0 =
     (let r1 = setHasInteracted True r0;
          r2 = clear r1;
          r3 = typeCommand cmd r2
      in case commandOutput up st cmd of
           None \<Rightarrow> (Rejected, r3)
         | Some text \<Rightarrow> (Fulfilled, print text html r3))"
  by (simp add: runCommand_def runCommandActions_def alone_append alone_typeCommandActions Let_def
      split: option.splits)

lemma runCommand_trace:
  "runCommand up st cmd (h, s) =
     (let s1 = s\<lparr>hasInteracted := True\<rparr>;
          s2 = s1\<lparr>output := []\<rparr>;
          r3 = typeCommand cmd (h @ [s, s1], s2)
      in case commandOutput up st cmd of
           None \<Rightarrow> (Rejected, r3)
         | Some text \<Rightarrow>
             (Fulfilled,
              (states r3,
               (snd r3)\<lparr>output := output (snd r3) @ [\<lparr>type = html, content = text\<rparr>]\<rparr>)))"
  by (simp add: runCommand_alone Let_def setHasInteracted_def clear_def setOutput_def setState_def
      print_def states_def split: option.splits)

lemma runCommand_output:
  "output (snd (snd (runCommand up st cmd r))) =
     promptItem cmd #
       (case commandOutput up st cmd of
          None \<Rightarrow> []
        | Some text \<Rightarrow> [\<lparr>type = html, content = text\<rparr>])"
proof (cases r)
  case (Pair h s)
  then show ?thesis
    by (simp add: runCommand_trace typeCommand_trace Let_def split: option.splits)
qed

lemma runCommand_outcome:
  "fst (runCommand up st cmd r) =
     (case commandOutput up st cmd of None \<Rightarrow> Rejected | Some text \<Rightarrow> Fulfilled)"
  by (simp add: runCommand_def split: option.splits)

lemma commandOutput_default:
  "cmd \<notin> set vocabulary \<Longrightarrow>
   commandOutput up st cmd = Some (str ''Comando no encontrado: '' @ textToHtml cmd)"
  by (simp add: commandOutput_def vocabulary_def textToHtml_marker)

text \<open>
  Claim C2. The router compares the input with the eight strings of the vocabulary,
  code unit by code unit: each of them selects the output of its formatter, and every
  other string, a case variant or a part of a command included, selects the not-found
  message.
\<close>

theorem commandOutput_router:
  "commandOutput up st (str ''whoami'') = formatWhoami (whoami st)
   \<and> commandOutput up st (str ''cat profile.txt'') = formatPerfil up (perfil st)
   \<and> commandOutput up st (str ''cat edu.txt'') = formatEstudios up (estudios st)
   \<and> commandOutput up st (str ''cat exp.txt'') = formatExperiencia up (experiencia st)
   \<and> commandOutput up st (str ''cat skills.txt'') = formatSkills up (skills st)
   \<and> commandOutput up st (str ''cat certs.txt'') = formatCertificaciones up (certificaciones st)
   \<and> commandOutput up st (str ''cat contact.txt'') = formatContacto up (contacto st)
   \<and> commandOutput up st (str ''whoami && cat *.txt'') = generateAllInfo up st
   \<and> (cmd \<notin> set vocabulary \<longrightarrow>
        commandOutput up st cmd = Some (textToHtml (str ''Comando no encontrado: '' @ cmd)))"
  by (simp add: commandOutput_def vocabulary_def)

theorem commandOutput_router_witness:
  "str ''WHOAMI'' \<notin> set vocabulary
   \<and> commandOutput upperASCII exampleStore (str ''WHOAMI'')
       = Some (textToHtml (str ''Comando no encontrado: '' @ str ''WHOAMI''))
   \<and> str ''who'' \<notin> set vocabulary
   \<and> commandOutput upperASCII exampleStore (str ''who'')
       = Some (textToHtml (str ''Comando no encontrado: '' @ str ''who''))"
proof -
  have a: "str ''WHOAMI'' \<notin> set vocabulary"
    by (simp add: vocabulary_def)
  have b: "str ''who'' \<notin> set vocabulary"
    by (simp add: vocabulary_def)
  from commandOutput_router[of upperASCII exampleStore "str ''WHOAMI''"] a
  have c: "commandOutput upperASCII exampleStore (str ''WHOAMI'')
       = Some (textToHtml (str ''Comando no encontrado: '' @ str ''WHOAMI''))"
    by blast
  from commandOutput_router[of upperASCII exampleStore "str ''who''"] b
  have d: "commandOutput upperASCII exampleStore (str ''who'')
       = Some (textToHtml (str ''Comando no encontrado: '' @ str ''who''))"
    by blast
  show ?thesis using a b c d by blast
qed

text \<open>
  Claim C3 as stated fails on an input holding a newline: the newline of the input is
  replaced too, so the entry does not hold the input as it was given.
\<close>

theorem not_found_newline_counterexample:
  "str ''a\<newline>b'' \<notin> set vocabulary
   \<and> output (snd (snd (runCommand upperASCII exampleStore (str ''a\<newline>b'')
         ([], useTerminal exampleAscii 1280)))) =
       [promptItem (str ''a\<newline>b''),
        \<lparr>type = html, content = str ''Comando no encontrado: a<br>b''\<rparr>]
   \<and> \<not> sublist (str ''a\<newline>b'') (str ''Comando no encontrado: a<br>b'')"
proof -
  have a: "str ''a\<newline>b'' \<notin> set vocabulary"
    by (simp add: vocabulary_def)
  have t: "textToHtml (str ''a\<newline>b'') = str ''a<br>b''"
    by (simp add: textToHtml_def str_def)
  have n: "\<not> sublist (str ''a\<newline>b'')
              (str ''Comando no encontrado: '' @ textToHtml (str ''a\<newline>b''))"
    by (simp add: sublist_newline) (simp add: str_def)
  show ?thesis
    using a n by (simp add: runCommand_output commandOutput_default t str_append)
qed

text \<open>
  Claim C3, amended. For every input outside the vocabulary \<open>runCommand\<close> fulfils its
  promise and leaves, after the prompt entry, one \<open>html\<close> entry whose content is the fixed
  marker \<open>Comando no encontrado: \<close> followed by the input with every newline replaced by
  \<open><br>\<close>. The content holds no newline, and it holds the input as it was given exactly
  when the input holds no newline.
\<close>

theorem runCommand_not_found:
  assumes "cmd \<notin> set vocabulary"
  shows "fst (runCommand up st cmd r) = Fulfilled
     \<and> output (snd (snd (runCommand up st cmd r))) =
         [promptItem cmd,
          \<lparr>type = html, content = str ''Comando no encontrado: '' @ textToHtml cmd\<rparr>]
     \<and> 0x0A \<notin> set (str ''Comando no encontrado: '' @ textToHtml cmd)
     \<and> (sublist cmd (str ''Comando no encontrado: '' @ textToHtml cmd) \<longleftrightarrow> 0x0A \<notin> set cmd)"
  using assms
  by (simp add: runCommand_output runCommand_outcome commandOutput_default sublist_newline
      marker_no_newline textToHtml_no_newline)

theorem runCommand_not_found_witness:
  "str ''ls'' \<notin> set vocabulary
   \<and> fst (runCommand upperASCII exampleStore (str ''ls'') ([], useTerminal exampleAscii 1280))
       = Fulfilled
   \<and> output (snd (snd (runCommand upperASCII exampleStore (str ''ls'')
         ([], useTerminal exampleAscii 1280)))) =
       [promptItem (str ''ls''), \<lparr>type = html, content = str ''Comando no encontrado: ls''\<rparr>]
   \<and> sublist (str ''ls'') (str ''Comando no encontrado: ls'')"
proof -
  have a: "str ''ls'' \<notin> set vocabulary"
    by (simp add: vocabulary_def)
  have n: "0x0A \<notin> set (str ''ls'')"
    by (simp add: str_def)
  have t: "str ''Comando no encontrado: '' @ textToHtml (str ''ls'') = str ''Comando no encontrado: ls''"
    using n by (simp add: textToHtml_id str_append)
  from runCommand_not_found[OF a, of upperASCII exampleStore "([], useTerminal exampleAscii 1280)"]
  show ?thesis using a n unfolding t by blast
qed

section \<open>The composite command\<close>

text \<open>The formatters on the example store.\<close>

lemmas eval_defs =
  exampleStore_def obj_def S_def field_def getProp_def mapMethod_def joinMethod_def
  toUpperCaseMethod_def iconLine_def dashLine_def colorIcon_def colors_def
  objectPrototype_def nativeFn_def upperASCII_def safeList_def safeStr_def orElse_def
  iconOrDash_def linkify_def bullet_def o_acute_def O_acute_def showInt_def digit_def
  num_def Rep_jsint_Abs

lemma ex_whoami:
  "formatWhoami (whoami exampleStore) =
     Some (str ''\<newline>Nombre: Robert\<newline>Rol: Pentester\<newline>\<newline>Hola\<newline>'')"
  by (simp add: formatWhoami_def eval_defs str_append)

lemma ex_perfil:
  \<open>formatPerfil upperASCII (perfil exampleStore) =
     Some (str ''\<newline>=== PERFIL ===\<newline>\<newline>Red Team\<newline>\<newline>=== ESPECIALIZACI'' @ O_acute
           @ str ''N ===\<newline><span style="color:#00ff00">[+]</span> Web''
           @ str ''\<newline>\<newline>=== OBJETIVOS ===\<newline>\<newline>'')\<close>
  by (simp add: formatPerfil_def eval_defs str_def)

lemma ex_estudios:
  "formatEstudios upperASCII (estudios exampleStore) =
     Some (str ''\<newline>=== ESTUDIOS ===\<newline>\<newline>[1] ASIR (2020 - 2022)\<newline>     '' @ bullet
           @ str '' Centro: IES\<newline>     '' @ bullet @ str '' Ubicaci'' @ o_acute
           @ str ''n: Madrid\<newline>     - Redes\<newline>\<newline>'')"
  by (simp add: formatEstudios_def estudiosItem_def eval_defs str_def showNat.simps)

lemma ex_experiencia:
  "formatExperiencia upperASCII (experiencia exampleStore) =
     Some (str ''\<newline>=== EXPERIENCIA ===\<newline>\<newline>'')"
  by (simp add: formatExperiencia_def experienciaItem_def stackLine_def eval_defs str_def)

lemma ex_skills:
  "formatSkills upperASCII (skills exampleStore) =
     Some (str ''\<newline>=== SKILLS ===\<newline>\<newline>Security\<newline>- nmap\<newline>\<newline>'')"
  by (simp add: formatSkills_def skillsCategory_def eval_defs str_def)

lemma ex_certificaciones:
  "formatCertificaciones upperASCII (certificaciones exampleStore) =
     Some (str ''\<newline>=== CERTS ===\<newline>\<newline>'' @ bullet
           @ str '' OBTENIDAS:\<newline>     - eJPT (2024)\<newline>       - INE\<newline>\<newline>'' @ bullet
           @ str '' EN CURSO:\<newline>     -\<newline>\<newline>'' @ bullet
           @ str '' OBJETIVOS:\<newline>     -\<newline>'')"
  by (simp add: formatCertificaciones_def renderCert_def objetivoLine_def eval_defs str_def)

lemma ex_contacto:
  \<open>formatContacto upperASCII (contacto exampleStore) =
     Some (str ''\<newline>=== CONTACTO ===\<newline>\<newline>     - Web: <a href="https://a.b" ''
           @ str ''target="_blank" rel="noopener noreferrer">https://a.b</a>\<newline>\<newline>\<newline>'')\<close>
  by (simp add: formatContacto_def contactoItem_def disponibilidadLine_def eval_defs str_def)

lemma generateAllInfo_join:
  assumes "formatWhoami (whoami st) = Some w"
    and "formatPerfil up (perfil st) = Some p"
    and "formatEstudios up (estudios st) = Some e"
    and "formatExperiencia up (experiencia st) = Some x"
    and "formatSkills up (skills st) = Some s"
    and "formatCertificaciones up (certificaciones st) = Some c"
    and "formatContacto up (contacto st) = Some k"
  shows "generateAllInfo up st =
     Some (str ''\<newline>''
           @ join (str ''\<newline>'' @ sectionSeparator @ str ''\<newline>\<newline>'') [w, p, e, x, s, c, k]
           @ str ''\<newline>'')"
  using assms by (simp add: generateAllInfo_def)

lemma allInfoSpec_join:
  assumes "formatWhoami (whoami st) = Some w"
    and "formatPerfil up (perfil st) = Some p"
    and "formatEstudios up (estudios st) = Some e"
    and "formatExperiencia up (experiencia st) = Some x"
    and "formatSkills up (skills st) = Some s"
    and "formatCertificaciones up (certificaciones st) = Some c"
    and "formatContacto up (contacto st) = Some k"
  shows "allInfoSpec up st = Some (join sectionSeparator [w, p, e, x, s, c, k])"
  using assms by (simp add: allInfoSpec_def)

lemma allInfo_lengths:
  "length (str ''\<newline>''
           @ join (str ''\<newline>'' @ sectionSeparator @ str ''\<newline>\<newline>'') [w, p, e, x, s, c, k]
           @ str ''\<newline>'')
   = length (join sectionSeparator [w, p, e, x, s, c, k]) + 20"
  by simp

text \<open>A formatter that throws makes the composite throw.\<close>

lemma generateAllInfo_None:
  "formatWhoami (whoami st) = None \<or> formatPerfil up (perfil st) = None
   \<or> formatEstudios up (estudios st) = None \<or> formatExperiencia up (experiencia st) = None
   \<or> formatSkills up (skills st) = None \<or> formatCertificaciones up (certificaciones st) = None
   \<or> formatContacto up (contacto st) = None \<Longrightarrow> generateAllInfo up st = None"
  by (auto simp: generateAllInfo_def split: Option.bind_splits)

text \<open>
  Claim C1 as stated fails: on the example store the composite output is not the seven
  outputs joined by the separator string alone (it is twenty code units longer).
\<close>

theorem generateAllInfo_counterexample:
  "generateAllInfo upperASCII exampleStore \<noteq> allInfoSpec upperASCII exampleStore"
proof
  assume eq: "generateAllInfo upperASCII exampleStore = allInfoSpec upperASCII exampleStore"
  note ex = ex_whoami ex_perfil ex_estudios ex_experiencia ex_skills ex_certificaciones
    ex_contacto
  from eq have "length (the (generateAllInfo upperASCII exampleStore))
      = length (the (allInfoSpec upperASCII exampleStore))"
    by simp
  then show False
    unfolding generateAllInfo_join[OF ex] allInfoSpec_join[OF ex] option.sel allInfo_lengths
    by simp
qed

text \<open>
  Claim C1, amended. When the seven formatters return, the composite output is a
  newline, then the outputs of \<open>formatWhoami\<close>, \<open>formatPerfil\<close>, \<open>formatEstudios\<close>,
  \<open>formatExperiencia\<close>, \<open>formatSkills\<close>, \<open>formatCertificaciones\<close> and \<open>formatContacto\<close> in
  this order, each two neighbours joined by a newline, the separator string and two
  newlines, then a closing newline.
\<close>

theorem generateAllInfo_layout:
  assumes "formatWhoami (whoami st) = Some w"
    and "formatPerfil up (perfil st) = Some p"
    and "formatEstudios up (estudios st) = Some e"
    and "formatExperiencia up (experiencia st) = Some x"
    and "formatSkills up (skills st) = Some s"
    and "formatCertificaciones up (certificaciones st) = Some c"
    and "formatContacto up (contacto st) = Some k"
  shows "generateAllInfo up st =
     Some (str ''\<newline>''
           @ join (str ''\<newline>'' @ sectionSeparator @ str ''\<newline>\<newline>'') [w, p, e, x, s, c, k]
           @ str ''\<newline>'')"
  using assms by (rule generateAllInfo_join)

theorem generateAllInfo_layout_witness:
  \<open>generateAllInfo upperASCII exampleStore =
     Some (str ''\<newline>''
           @ join (str ''\<newline>'' @ sectionSeparator @ str ''\<newline>\<newline>'')
               [str ''\<newline>Nombre: Robert\<newline>Rol: Pentester\<newline>\<newline>Hola\<newline>'',
                str ''\<newline>=== PERFIL ===\<newline>\<newline>Red Team\<newline>\<newline>=== ESPECIALIZACI'' @ O_acute
                  @ str ''N ===\<newline><span style="color:#00ff00">[+]</span> Web''
                  @ str ''\<newline>\<newline>=== OBJETIVOS ===\<newline>\<newline>'',
                str ''\<newline>=== ESTUDIOS ===\<newline>\<newline>[1] ASIR (2020 - 2022)\<newline>     '' @ bullet
                  @ str '' Centro: IES\<newline>     '' @ bullet @ str '' Ubicaci'' @ o_acute
                  @ str ''n: Madrid\<newline>     - Redes\<newline>\<newline>'',
                str ''\<newline>=== EXPERIENCIA ===\<newline>\<newline>'',
                str ''\<newline>=== SKILLS ===\<newline>\<newline>Security\<newline>- nmap\<newline>\<newline>'',
                str ''\<newline>=== CERTS ===\<newline>\<newline>'' @ bullet
                  @ str '' OBTENIDAS:\<newline>     - eJPT (2024)\<newline>       - INE\<newline>\<newline>'' @ bullet
                  @ str '' EN CURSO:\<newline>     -\<newline>\<newline>'' @ bullet
                  @ str '' OBJETIVOS:\<newline>     -\<newline>'',
                str ''\<newline>=== CONTACTO ===\<newline>\<newline>     - Web: <a href="https://a.b" ''
                  @ str ''target="_blank" rel="noopener noreferrer">https://a.b</a>\<newline>\<newline>\<newline>'']
           @ str ''\<newline>'')\<close>
  by (rule generateAllInfo_layout
        [OF ex_whoami ex_perfil ex_estudios ex_experiencia ex_skills ex_certificaciones
            ex_contacto])

text \<open>A whole run of \<open>cat skills.txt\<close> on the example store, from the initial state.\<close>

lemma runCommand_skills:
  "map content (output (snd (snd (runCommand upperASCII exampleStore (str ''cat skills.txt'')
       ([], useTerminal exampleAscii 1280))))) =
     [promptStart @ str ''cat skills.txt'' @ promptEnd,
      str ''\<newline>=== SKILLS ===\<newline>\<newline>Security\<newline>- nmap\<newline>\<newline>'']"
  by (simp add: runCommand_output commandOutput_def ex_skills promptItem_def)

section \<open>Runs that overlap\<close>

text \<open>
  A call of \<open>runCommand\<close> on a command of \<open>N\<close> code units has \<open>N + 1\<close> awaits, so it runs in
  \<open>N + 2\<close> turns.
\<close>

lemma awaits_append: "awaits (as @ bs) = awaits as + awaits bs"
  by (induction as rule: awaits.induct) simp_all

lemma awaits_typeLoopActions: "awaits (typeLoopActions cmd i) = length cmd - i"
proof (induction cmd i rule: typeLoopActions.induct)
  case (1 cmd i)
  show ?case
  proof (cases "i < length cmd")
    case True
    have "typeLoopActions cmd i =
        Call (setOutput (\<lambda>prev. replaceLast prev (promptItem (take (i + 1) cmd)))) # Await
          # typeLoopActions cmd (i + 1)"
      using True by (subst typeLoopActions.simps) (simp add: Let_def)
    then show ?thesis
      using "1.IH"[OF True refl] True by simp
  next
    case False
    then show ?thesis
      by (simp add: typeLoopActions.simps)
  qed
qed

lemma awaits_runCommandActions: "awaits (runCommandActions up st cmd) = length cmd + 1"
  by (simp add: runCommandActions_def typeCommandActions_def awaits_append awaits_typeLoopActions
      split: option.splits)

lemma runSegment_alone:
  "alone (fst (runSegment as r)) (snd (runSegment as r)) = alone as r"
  by (induction as r rule: runSegment.induct) simp_all

lemma runSegment_awaits:
  "awaits (fst (runSegment as r)) = awaits as - 1"
  by (induction as r rule: runSegment.induct) simp_all

lemma runSegment_last: "awaits as = 0 \<Longrightarrow> fst (runSegment as r) = []"
  by (induction as r rule: runSegment.induct) simp_all

text \<open>A task that takes all its turns in a row runs as it does on its own.\<close>

lemma interleave_alone:
  "i < length ts \<Longrightarrow> awaits (ts ! i) = k \<Longrightarrow>
   interleave (replicate (Suc k) i) ts r = (ts[i := []], alone (ts ! i) r)"
proof (induction k arbitrary: ts r)
  case 0
  then show ?case
    using runSegment_last[of "ts ! i" r] runSegment_alone[of "ts ! i" r] by simp
next
  case (Suc k)
  let ?ts = "ts[i := fst (runSegment (ts ! i) r)]"
  let ?r = "snd (runSegment (ts ! i) r)"
  have l: "i < length ?ts" using Suc.prems by simp
  have a: "awaits (?ts ! i) = k"
    using Suc.prems runSegment_awaits[of "ts ! i" r] by simp
  have "interleave (replicate (Suc (Suc k)) i) ts r = interleave (replicate (Suc k) i) ?ts ?r"
    using Suc.prems by simp
  also have "\<dots> = (?ts[i := []], alone (?ts ! i) ?r)"
    by (rule Suc.IH[OF l a])
  also have "\<dots> = (ts[i := []], alone (ts ! i) r)"
    using Suc.prems runSegment_alone[of "ts ! i" r] by simp
  finally show ?case .
qed

lemma commandOutput_whoami:
  "commandOutput upperASCII exampleStore (str ''whoami'')
     = Some (str ''\<newline>Nombre: Robert\<newline>Rol: Pentester\<newline>\<newline>Hola\<newline>'')"
  by (simp add: commandOutput_def ex_whoami)

lemma commandOutput_ls:
  "commandOutput upperASCII exampleStore (str ''ls'') = Some (str ''Comando no encontrado: ls'')"
  by (simp add: commandOutput_def textToHtml_def str_def)

lemma commandOutput_throws:
  "commandOutput upperASCII (exampleStore\<lparr>perfil := obj [(''title'', S ''Perfil'')]\<rparr>)
     (str ''cat profile.txt'') = None"
  by (simp add: commandOutput_def formatPerfil_def eval_defs)

lemmas run_defs =
  twoClicks_def firstRender_def runCommandActions_def typeCommandActions_def
  typeLoopActions.simps commandOutput_whoami commandOutput_ls useTerminal_def exampleAscii_def
  setState_def setOutput_def setIsTyping_def setIsTypingCommand_def setHasInteracted_def
  clear_def print_def replaceLast_def Let_def

text \<open>
  The two clicks with \<open>ls\<close> clicked 100 ms after \<open>whoami\<close>: the turns of \<open>whoami\<close> fall at
  0, 40, 80, \<open>\<dots>\<close> ms and those of \<open>ls\<close> at 100, 140, 180 ms, so the turns come in the order
  \<open>0, 0, 0, 1, 0, 1, 0, 1, 1\<close> up to the end of \<open>ls\<close>, and \<open>0, 0, 0\<close> after it.
\<close>

lemma overlap_ls_done:
  "map length (fst (interleave [0, 0, 0, 1, 0, 1, 0, 1, 1] twoClicks firstRender)) = [6, 0]"
  by (simp add: run_defs)

lemma overlap_ls_output:
  "output (snd (snd (interleave [0, 0, 0, 1, 0, 1, 0, 1, 1] twoClicks firstRender)))
     = [promptItem (str ''whoam''),
        \<lparr>type = html, content = str ''Comando no encontrado: ls''\<rparr>]"
  by (simp add: run_defs) (simp add: str_def)

lemma overlap_both_done:
  "fst (interleave [0, 0, 0, 1, 0, 1, 0, 1, 1, 0, 0, 0] twoClicks firstRender) = [[], []]"
  by (simp add: run_defs)

lemma overlap_both_output:
  "output (snd (snd (interleave [0, 0, 0, 1, 0, 1, 0, 1, 1, 0, 0, 0] twoClicks firstRender)))
     = [promptItem (str ''whoam''), promptItem (str ''whoami''),
        \<lparr>type = html,
          content = str ''\<newline>Nombre: Robert\<newline>Rol: Pentester\<newline>\<newline>Hola\<newline>''\<rparr>]"
  by (simp add: run_defs) (simp add: str_def)

text \<open>
  Claim C4 as stated fails. When \<open>ls\<close> is clicked while \<open>whoami\<close> is being typed, the run of
  \<open>ls\<close> ends (its task is empty, six actions of \<open>whoami\<close> are left) with a history whose
  first entry is the prompt that the run of \<open>whoami\<close> has typed so far; when both runs have
  ended the history holds two prompts of \<open>whoami\<close> and no entry of \<open>ls\<close>. And a run whose
  formatter throws (a profile record without its lists) rejects its promise and appends
  no result entry.
\<close>

theorem runCommand_overlap_counterexample:
  "map length (fst (interleave [0, 0, 0, 1, 0, 1, 0, 1, 1] twoClicks firstRender)) = [6, 0]
   \<and> output (snd (snd (interleave [0, 0, 0, 1, 0, 1, 0, 1, 1] twoClicks firstRender)))
       = [promptItem (str ''whoam''),
          \<lparr>type = html, content = str ''Comando no encontrado: ls''\<rparr>]
   \<and> fst (interleave [0, 0, 0, 1, 0, 1, 0, 1, 1, 0, 0, 0] twoClicks firstRender) = [[], []]
   \<and> output (snd (snd (interleave [0, 0, 0, 1, 0, 1, 0, 1, 1, 0, 0, 0] twoClicks firstRender)))
       = [promptItem (str ''whoam''), promptItem (str ''whoami''),
          \<lparr>type = html,
            content = str ''\<newline>Nombre: Robert\<newline>Rol: Pentester\<newline>\<newline>Hola\<newline>''\<rparr>]
   \<and> fst (runCommand upperASCII (exampleStore\<lparr>perfil := obj [(''title'', S ''Perfil'')]\<rparr>)
          (str ''cat profile.txt'') firstRender) = Rejected
   \<and> output (snd (snd (runCommand upperASCII
          (exampleStore\<lparr>perfil := obj [(''title'', S ''Perfil'')]\<rparr>)
          (str ''cat profile.txt'') firstRender)))
       = [promptItem (str ''cat profile.txt'')]"
  using overlap_ls_done overlap_ls_output overlap_both_done overlap_both_output
  by (simp add: runCommand_output runCommand_outcome commandOutput_throws)

text \<open>
  Claim C4, amended. Take a command whose selected formatter returns a text, and a run
  of \<open>runCommand\<close> on it that takes its turns in a row: no other call runs between its
  segments, whatever tasks are pending and whatever state and history earlier activity
  has left. That run goes, in this order, through the state with \<open>hasInteracted\<close> set, the
  state with the history emptied, the states of the typing animation of the command, and
  the state with the result entry appended; it ends with a history that is the prompt
  entry and the result entry of this run and nothing else. Nothing serialises calls that
  overlap.
\<close>

theorem runCommand_order:
  assumes "commandOutput up st cmd = Some text"
    and "i < length ts"
    and "ts ! i = runCommandActions up st cmd"
  shows "interleave (replicate (length cmd + 2) i) ts (h, s)
       = (ts[i := []], snd (runCommand up st cmd (h, s)))
   \<and> states (snd (runCommand up st cmd (h, s))) =
       h @ [s, s\<lparr>hasInteracted := True\<rparr>]
         @ states (typeCommand cmd ([], s\<lparr>hasInteracted := True, output := []\<rparr>))
         @ [s\<lparr>hasInteracted := True, isTyping := False, isTypingCommand := False,
              output := [promptItem cmd, \<lparr>type = html, content = text\<rparr>]\<rparr>]
   \<and> output (snd (snd (runCommand up st cmd (h, s)))) =
       [promptItem cmd, \<lparr>type = html, content = text\<rparr>]"
proof -
  have "interleave (replicate (Suc (length cmd + 1)) i) ts (h, s)
       = (ts[i := []], alone (ts ! i) (h, s))"
    using assms(2,3) by (intro interleave_alone) (simp_all add: awaits_runCommandActions)
  then have a: "interleave (replicate (length cmd + 2) i) ts (h, s)
       = (ts[i := []], snd (runCommand up st cmd (h, s)))"
    using assms(3) by (simp add: runCommand_def)
  show ?thesis
    using a assms(1)
    by (simp add: runCommand_trace typeCommand_trace states_def Let_def)
qed

theorem runCommand_order_witness:
  "commandOutput upperASCII exampleStore (str ''cat skills.txt'')
     = Some (str ''\<newline>=== SKILLS ===\<newline>\<newline>Security\<newline>- nmap\<newline>\<newline>'')
   \<and> interleave (replicate (length (str ''cat skills.txt'') + 2) 0)
         [runCommandActions upperASCII exampleStore (str ''cat skills.txt'')]
         ([], useTerminal exampleAscii 1280)
       = ([[]], snd (runCommand upperASCII exampleStore (str ''cat skills.txt'')
                      ([], useTerminal exampleAscii 1280)))
   \<and> output (snd (snd (runCommand upperASCII exampleStore (str ''cat skills.txt'')
         ([], useTerminal exampleAscii 1280))))
       = [promptItem (str ''cat skills.txt''),
          \<lparr>type = html,
            content = str ''\<newline>=== SKILLS ===\<newline>\<newline>Security\<newline>- nmap\<newline>\<newline>''\<rparr>]"
proof -
  have c: "commandOutput upperASCII exampleStore (str ''cat skills.txt'')
     = Some (str ''\<newline>=== SKILLS ===\<newline>\<newline>Security\<newline>- nmap\<newline>\<newline>'')"
    by (simp add: commandOutput_def ex_skills)
  have l: "0 < length [runCommandActions upperASCII exampleStore (str ''cat skills.txt'')]"
    by simp
  have n: "[runCommandActions upperASCII exampleStore (str ''cat skills.txt'')] ! 0
      = runCommandActions upperASCII exampleStore (str ''cat skills.txt'')"
    by simp
  note inst = runCommand_order[OF c l n, of "[]" "useTerminal exampleAscii 1280"]
  have u: "[runCommandActions upperASCII exampleStore (str ''cat skills.txt'')][0 := []] = [[]]"
    by simp
  show ?thesis
    using c inst[THEN conjunct1, unfolded u] inst[THEN conjunct2, THEN conjunct2]
    by (intro conjI)
qed

section \<open>Defaults for empty and missing sub-lists\<close>

lemma plainProps_keys: "plainProps kvs \<Longrightarrow> str ''toString'' \<notin> fst ` set kvs"
  by (induction kvs) auto

lemma plainProps_map_of: "plainProps kvs \<Longrightarrow> map_of kvs k = Some v \<Longrightarrow> plain v"
  by (induction kvs) (auto split: if_splits)

text \<open>A plain value converts to a string.\<close>

lemma toStr_plain:
  "plain v \<Longrightarrow> \<exists>s. toStr v = Some s"
  "plainList xs \<Longrightarrow> \<exists>ss. elemStrs xs = Some ss"
proof (induction v and xs rule: toStr_elemStrs.induct)
  case (7 kvs)
  then show ?case using plainProps_keys by auto
next
  case (9 x xs)
  from "9.prems" have px: "plain x" and pxs: "plainList xs"
    by simp_all
  obtain s where s: "(if x = Undefined \<or> x = Null then Some [] else toStr x) = Some s"
    using "9.IH"(1) px by (cases "x = Undefined \<or> x = Null") auto
  from "9.IH"(2)[OF s pxs] obtain ss where "elemStrs xs = Some ss"
    by auto
  with s show ?case by simp
qed auto

lemma plain_optProp: "plain v \<Longrightarrow> plain (optProp v k)"
  by (cases v) (auto split: option.splits dest: plainProps_map_of)

lemma plainList_iff: "plainList xs \<longleftrightarrow> (\<forall>x\<in>set xs. plain x)"
  by (induction xs) auto

lemma plain_safeList: "plain v \<Longrightarrow> x \<in> set (safeList v) \<Longrightarrow> plain x"
  by (cases v) (auto simp: safeList_def plainList_iff)

lemma colorIcon_plain: "plain i \<Longrightarrow> plain c \<Longrightarrow> \<exists>s. colorIcon i c = Some s"
  using toStr_plain(1)[of i] toStr_plain(1)[of c]
  by (auto simp: colorIcon_def Let_def)

lemma iconOrDash_plain: "plain x \<Longrightarrow> \<exists>s. iconOrDash x = Some s"
  by (simp add: iconOrDash_def colorIcon_plain plain_optProp)

lemma mapM_total:
  "(\<And>x. x \<in> set xs \<Longrightarrow> \<exists>y. f x = Some y) \<Longrightarrow>
   \<exists>ys. mapM f xs = Some ys \<and> length ys = length xs"
proof (induction xs)
  case Nil
  then show ?case by simp
next
  case (Cons a xs)
  then obtain y where "f a = Some y"
    by auto
  moreover from Cons obtain ys where "mapM f xs = Some ys \<and> length ys = length xs"
    by auto
  ultimately show ?case by simp
qed

lemma renderCert_plain: "plain c \<Longrightarrow> \<exists>s. renderCert c = Some s"
proof -
  assume p: "plain c"
  obtain i where i: "iconOrDash c = Some i"
    using iconOrDash_plain[OF p] by auto
  have "\<And>d. d \<in> set (safeList (optProp c ''detalles'')) \<Longrightarrow>
        \<exists>y. map_option (\<lambda>s. str ''       - '' @ s) (toStr d) = Some y"
    using plain_safeList[OF plain_optProp[OF p]] toStr_plain(1) by fastforce
  from mapM_total[where xs = "safeList (optProp c ''detalles'')"
      and f = "\<lambda>d. map_option (\<lambda>s. str ''       - '' @ s) (toStr d)", OF this]
  obtain ds where "mapM (\<lambda>d. map_option (\<lambda>s. str ''       - '' @ s) (toStr d))
                      (safeList (optProp c ''detalles'')) = Some ds"
    by auto
  with i show ?thesis by (simp add: renderCert_def Let_def)
qed

lemma objetivoLine_plain: "plain c \<Longrightarrow> \<exists>s. objetivoLine c = Some s"
  using iconOrDash_plain[of c] by (auto simp: objetivoLine_def)

lemma contactoItem_plain: "plain c \<Longrightarrow> \<exists>s. contactoItem c = Some s"
  using iconOrDash_plain[of c] by (auto simp: contactoItem_def Let_def)

lemma disponibilidadLine_plain: "plain c \<Longrightarrow> \<exists>s. disponibilidadLine c = Some s"
  using iconOrDash_plain[of c] by (auto simp: disponibilidadLine_def)

lemma mapM_safeList:
  assumes "plain data" and "\<And>c. plain c \<Longrightarrow> \<exists>s. f c = Some s"
  shows "\<exists>ys. mapM f (safeList (optProp data k)) = Some ys
              \<and> (safeList (optProp data k) = [] \<longrightarrow> ys = [])"
proof -
  have "\<And>x. x \<in> set (safeList (optProp data k)) \<Longrightarrow> \<exists>y. f x = Some y"
    using plain_safeList[OF plain_optProp[OF assms(1)]] assms(2) by blast
  from mapM_total[of "safeList (optProp data k)" f, OF this] show ?thesis
    by auto
qed

text \<open>A sub-list that is missing, \<open>null\<close>, not an array, or empty, is the empty list to \<open>safeList\<close>.\<close>

lemma safeList_empty_iff: "safeList v = [] \<longleftrightarrow> (\<forall>x xs. v \<noteq> Arr (x # xs))"
  by (cases v) (auto simp: safeList_def intro: list.exhaust)

lemma safeList_missing [simp]:
  "safeList Undefined = []" "safeList Null = []" "safeList (Arr []) = []"
  by (simp_all add: safeList_def)

text \<open>
  The formatters without defaults call \<open>map\<close> on the field as it is: a missing list makes
  them throw.
\<close>

lemma mapMethod_Undefined [simp]: "mapMethod Undefined f = None"
  by (simp add: mapMethod_def)

lemma getProp_cases: "getProp v k = None \<or> getProp v k = Some (optProp v k)"
  by (simp add: getProp_def)

lemma formatPerfil_missing:
  "optProp data ''specialization'' = Undefined \<or> optProp data ''goals'' = Undefined \<Longrightarrow>
   formatPerfil up data = None"
  using getProp_cases[of data "''specialization''"] getProp_cases[of data "''goals''"]
  by (auto simp: formatPerfil_def Let_def split: Option.bind_splits)

lemma formatEstudios_missing:
  "optProp data ''items'' = Undefined \<Longrightarrow> formatEstudios up data = None"
  using getProp_cases[of data "''items''"]
  by (auto simp: formatEstudios_def split: Option.bind_splits)

lemma formatExperiencia_missing:
  "optProp data ''items'' = Undefined \<Longrightarrow> formatExperiencia up data = None"
  using getProp_cases[of data "''items''"]
  by (auto simp: formatExperiencia_def split: Option.bind_splits)

lemma formatSkills_missing:
  "optProp data ''categorias'' = Undefined \<Longrightarrow> formatSkills up data = None"
  using getProp_cases[of data "''categorias''"]
  by (auto simp: formatSkills_def split: Option.bind_splits)

lemma formatCertificaciones_plain:
  assumes "plain data"
  shows "\<exists>a b c.
     formatCertificaciones up data =
       Some (str ''\<newline>=== '' @ up (safeStr (optProp data ''title'')) @ str '' ===\<newline>\<newline>''
             @ bullet @ str '' OBTENIDAS:\<newline>'' @ a
             @ str ''\<newline>\<newline>'' @ bullet @ str '' EN CURSO:\<newline>'' @ b
             @ str ''\<newline>\<newline>'' @ bullet @ str '' OBJETIVOS:\<newline>'' @ c
             @ str ''\<newline>'')
     \<and> (safeList (optProp data ''obtenidas'') = [] \<longrightarrow> a = str ''     -'')
     \<and> (safeList (optProp data ''enPreparacion'') = [] \<longrightarrow> b = str ''     -'')
     \<and> (safeList (optProp data ''objetivos'') = [] \<longrightarrow> c = str ''     -'')"
proof -
  obtain xs where xs: "mapM renderCert (safeList (optProp data ''obtenidas'')) = Some xs"
      "safeList (optProp data ''obtenidas'') = [] \<longrightarrow> xs = []"
    using mapM_safeList[where f = renderCert and k = "''obtenidas''", OF assms renderCert_plain]
    by blast
  obtain ys where ys: "mapM renderCert (safeList (optProp data ''enPreparacion'')) = Some ys"
      "safeList (optProp data ''enPreparacion'') = [] \<longrightarrow> ys = []"
    using mapM_safeList[where f = renderCert and k = "''enPreparacion''", OF assms renderCert_plain]
    by blast
  obtain zs where zs: "mapM objetivoLine (safeList (optProp data ''objetivos'')) = Some zs"
      "safeList (optProp data ''objetivos'') = [] \<longrightarrow> zs = []"
    using mapM_safeList[where f = objetivoLine and k = "''objetivos''", OF assms objetivoLine_plain]
    by blast
  let ?a = "orElse (join (str ''\<newline>\<newline>'') xs) (str ''     -'')"
  let ?b = "orElse (join (str ''\<newline>\<newline>'') ys) (str ''     -'')"
  let ?c = "orElse (join (str ''\<newline>'') zs) (str ''     -'')"
  have "formatCertificaciones up data =
       Some (str ''\<newline>=== '' @ up (safeStr (optProp data ''title'')) @ str '' ===\<newline>\<newline>''
             @ bullet @ str '' OBTENIDAS:\<newline>'' @ ?a
             @ str ''\<newline>\<newline>'' @ bullet @ str '' EN CURSO:\<newline>'' @ ?b
             @ str ''\<newline>\<newline>'' @ bullet @ str '' OBJETIVOS:\<newline>'' @ ?c
             @ str ''\<newline>'')"
    using xs(1) ys(1) zs(1) by (simp add: formatCertificaciones_def Let_def)
  moreover have "safeList (optProp data ''obtenidas'') = [] \<longrightarrow> ?a = str ''     -''"
    using xs(2) by (simp add: orElse_def)
  moreover have "safeList (optProp data ''enPreparacion'') = [] \<longrightarrow> ?b = str ''     -''"
    using ys(2) by (simp add: orElse_def)
  moreover have "safeList (optProp data ''objetivos'') = [] \<longrightarrow> ?c = str ''     -''"
    using zs(2) by (simp add: orElse_def)
  ultimately show ?thesis by blast
qed

lemma formatContacto_plain:
  assumes "plain data"
  shows "\<exists>i d.
     formatContacto up data =
       Some (str ''\<newline>=== '' @ up (safeStr (optProp data ''title'')) @ str '' ===\<newline>\<newline>''
             @ i @ str ''\<newline>\<newline>'' @ d @ str ''\<newline>'')
     \<and> (safeList (optProp data ''items'') = [] \<longrightarrow> i = str ''     -'')
     \<and> (safeList (optProp data ''disponibilidad'') = [] \<longrightarrow> d = [])"
proof -
  obtain xs where xs: "mapM contactoItem (safeList (optProp data ''items'')) = Some xs"
      "safeList (optProp data ''items'') = [] \<longrightarrow> xs = []"
    using mapM_safeList[where f = contactoItem and k = "''items''", OF assms contactoItem_plain]
    by blast
  obtain ys where ys:
      "mapM disponibilidadLine (safeList (optProp data ''disponibilidad'')) = Some ys"
      "safeList (optProp data ''disponibilidad'') = [] \<longrightarrow> ys = []"
    using mapM_safeList[where f = disponibilidadLine and k = "''disponibilidad''",
        OF assms disponibilidadLine_plain]
    by blast
  let ?i = "orElse (join (str ''\<newline>'') xs) (str ''     -'')"
  let ?d = "if join (str ''\<newline>'') ys \<noteq> []
            then str ''\<newline>'' @ bullet @ str '' DISPONIBILIDAD:\<newline>'' @ join (str ''\<newline>'') ys
            else []"
  have "formatContacto up data =
       Some (str ''\<newline>=== '' @ up (safeStr (optProp data ''title'')) @ str '' ===\<newline>\<newline>''
             @ ?i @ str ''\<newline>\<newline>'' @ ?d @ str ''\<newline>'')"
    using xs(1) ys(1) by (simp add: formatContacto_def Let_def)
  moreover have "safeList (optProp data ''items'') = [] \<longrightarrow> ?i = str ''     -''"
    using xs(2) by (simp add: orElse_def)
  moreover have "safeList (optProp data ''disponibilidad'') = [] \<longrightarrow> ?d = []"
    using ys(2) by simp
  ultimately show ?thesis by blast
qed

text \<open>
  Without plainness even the formatters with defaults throw: an icon that is an object
  with an own \<open>toString\<close> property cannot be converted.
\<close>

lemma formatCertificaciones_throws:
  "formatCertificaciones up
     (obj [(''obtenidas'', Arr [obj [(''icon'', obj [(''toString'', num 1)])]])]) = None"
  by (simp add: formatCertificaciones_def renderCert_def iconOrDash_def colorIcon_def
      safeList_def obj_def)

text \<open>
  Claim C6 as stated fails. \<open>formatContacto\<close>, given an empty \<open>disponibilidad\<close> list,
  leaves the availability block out: no heading and no placeholder line stand for it.
  \<open>formatPerfil\<close>, given a record without its \<open>specialization\<close> list, throws.
\<close>

theorem formatters_defaults_counterexample:
  "formatContacto upperASCII
     (obj [(''title'', S ''Contacto''),
           (''items'', Arr [obj [(''label'', S ''Web''), (''value'', S ''a.b'')]]),
           (''disponibilidad'', Arr [])])
     = Some (str ''\<newline>=== CONTACTO ===\<newline>\<newline>     - Web: a.b\<newline>\<newline>\<newline>'')
   \<and> \<not> sublist (str ''\<newline>     -\<newline>'')
         (str ''\<newline>=== CONTACTO ===\<newline>\<newline>     - Web: a.b\<newline>\<newline>\<newline>'')
   \<and> formatPerfil upperASCII
       (obj [(''title'', S ''Perfil''), (''description'', S ''Red Team''), (''goals'', Arr [])])
     = None"
proof -
  have a: "formatContacto upperASCII
     (obj [(''title'', S ''Contacto''),
           (''items'', Arr [obj [(''label'', S ''Web''), (''value'', S ''a.b'')]]),
           (''disponibilidad'', Arr [])])
     = Some (str ''\<newline>=== CONTACTO ===\<newline>\<newline>     - Web: a.b\<newline>\<newline>\<newline>'')"
    by (simp add: formatContacto_def contactoItem_def disponibilidadLine_def eval_defs str_def)
  have b: "\<not> sublist (str ''\<newline>     -\<newline>'')
         (str ''\<newline>=== CONTACTO ===\<newline>\<newline>     - Web: a.b\<newline>\<newline>\<newline>'')"
    by (simp add: str_def sublist_Cons_right prefix_Cons)
  have c: "formatPerfil upperASCII
       (obj [(''title'', S ''Perfil''), (''description'', S ''Red Team''), (''goals'', Arr [])])
     = None"
    by (simp add: formatPerfil_def eval_defs str_def)
  show ?thesis using a b c by blast
qed

text \<open>
  Claim C6, amended. On every plain record the two formatters written with defaults
  return normally. \<open>formatCertificaciones\<close> renders the section header and its three
  headings, and under each heading whose sub-list is empty, missing or not an array the
  single placeholder line of five spaces and a dash. \<open>formatContacto\<close> renders the header,
  the placeholder line for an empty or missing \<open>items\<close> list, and leaves the availability
  block out when \<open>disponibilidad\<close> is empty or missing.
\<close>

theorem formatters_defaults:
  assumes "plain data"
  shows "(\<exists>a b c.
      formatCertificaciones up data =
        Some (str ''\<newline>=== '' @ up (safeStr (optProp data ''title'')) @ str '' ===\<newline>\<newline>''
              @ bullet @ str '' OBTENIDAS:\<newline>'' @ a
              @ str ''\<newline>\<newline>'' @ bullet @ str '' EN CURSO:\<newline>'' @ b
              @ str ''\<newline>\<newline>'' @ bullet @ str '' OBJETIVOS:\<newline>'' @ c
              @ str ''\<newline>'')
      \<and> (safeList (optProp data ''obtenidas'') = [] \<longrightarrow> a = str ''     -'')
      \<and> (safeList (optProp data ''enPreparacion'') = [] \<longrightarrow> b = str ''     -'')
      \<and> (safeList (optProp data ''objetivos'') = [] \<longrightarrow> c = str ''     -''))
   \<and> (\<exists>i d.
      formatContacto up data =
        Some (str ''\<newline>=== '' @ up (safeStr (optProp data ''title'')) @ str '' ===\<newline>\<newline>''
              @ i @ str ''\<newline>\<newline>'' @ d @ str ''\<newline>'')
      \<and> (safeList (optProp data ''items'') = [] \<longrightarrow> i = str ''     -'')
      \<and> (safeList (optProp data ''disponibilidad'') = [] \<longrightarrow> d = []))"
  using formatCertificaciones_plain[OF assms, of up] formatContacto_plain[OF assms, of up]
  by blast

theorem formatters_defaults_witness:
  "plain (obj [(''title'', S ''Certs''), (''obtenidas'', Arr []), (''objetivos'', Null)])
   \<and> formatCertificaciones upperASCII
        (obj [(''title'', S ''Certs''), (''obtenidas'', Arr []), (''objetivos'', Null)]) =
       Some (str ''\<newline>=== CERTS ===\<newline>\<newline>'' @ bullet
             @ str '' OBTENIDAS:\<newline>     -\<newline>\<newline>'' @ bullet
             @ str '' EN CURSO:\<newline>     -\<newline>\<newline>'' @ bullet
             @ str '' OBJETIVOS:\<newline>     -\<newline>'')
   \<and> formatContacto upperASCII
        (obj [(''title'', S ''Certs''), (''obtenidas'', Arr []), (''objetivos'', Null)]) =
       Some (str ''\<newline>=== CERTS ===\<newline>\<newline>     -\<newline>\<newline>\<newline>'')"
proof -
  let ?r = "obj [(''title'', S ''Certs''), (''obtenidas'', Arr []), (''objetivos'', Null)]"
  have p: "plain ?r"
    by (simp add: obj_def S_def)
  have e: "safeList (optProp ?r ''obtenidas'') = []"
      "safeList (optProp ?r ''enPreparacion'') = []"
      "safeList (optProp ?r ''objetivos'') = []"
      "safeList (optProp ?r ''items'') = []"
      "safeList (optProp ?r ''disponibilidad'') = []"
    by (simp_all add: obj_def S_def)
  have t: "upperASCII (safeStr (optProp ?r ''title'')) = str ''CERTS''"
    by (simp add: obj_def S_def safeStr_def upperASCII_def str_def)
  from formatters_defaults[OF p, of upperASCII] e
  have "formatCertificaciones upperASCII ?r =
       Some (str ''\<newline>=== '' @ str ''CERTS'' @ str '' ===\<newline>\<newline>''
              @ bullet @ str '' OBTENIDAS:\<newline>'' @ str ''     -''
              @ str ''\<newline>\<newline>'' @ bullet @ str '' EN CURSO:\<newline>'' @ str ''     -''
              @ str ''\<newline>\<newline>'' @ bullet @ str '' OBJETIVOS:\<newline>'' @ str ''     -''
              @ str ''\<newline>'')"
    and "formatContacto upperASCII ?r =
       Some (str ''\<newline>=== '' @ str ''CERTS'' @ str '' ===\<newline>\<newline>''
              @ str ''     -'' @ str ''\<newline>\<newline>'' @ [] @ str ''\<newline>'')"
    unfolding t by auto
  then show ?thesis
    using p by (simp add: str_def)
qed

section \<open>The colour of an icon\<close>

lemma colors_distinct: "distinct (map fst colors)"
  by (simp add: colors_def)

lemma colors_nonempty: "(k, h) \<in> set colors \<Longrightarrow> h \<noteq> []"
  by (auto simp: colors_def)

text \<open>The six keys of the table give their colour.\<close>

lemma colorIcon_own:
  \<open>(k, h) \<in> set colors \<Longrightarrow>
   colorIcon (Str i) (Str k)
     = Some (str ''<span style="color:'' @ h @ str ''">'' @ i @ str ''</span>'')\<close>
proof -
  assume m: "(k, h) \<in> set colors"
  have "map_of colors k = Some h"
    using m colors_distinct by (rule_tac map_of_is_SomeI)
  then show ?thesis
    using colors_nonempty[OF m] by (simp add: colorIcon_def)
qed

text \<open>
  A key that is neither in the table nor a member of \<open>Object.prototype\<close> gives the
  default colour; so does a missing colour, which reads \<open>colors["undefined"]\<close>.
\<close>

lemma colorIcon_default:
  \<open>k \<notin> fst ` set colors \<Longrightarrow> k \<notin> fst ` set objectPrototype \<Longrightarrow>
   colorIcon (Str i) (Str k) = Some (str ''<span style="color:#ffffff">'' @ i @ str ''</span>'')\<close>
proof -
  assume a: "k \<notin> fst ` set colors" and b: "k \<notin> fst ` set objectPrototype"
  have "map_of colors k = None"
    using a by (simp add: map_of_eq_None_iff)
  moreover have "map_of objectPrototype k = None"
    using b by (simp add: map_of_eq_None_iff)
  ultimately show ?thesis
    by (simp add: colorIcon_def str_append)
qed

lemma colorIcon_missing:
  \<open>colorIcon (Str i) Undefined = Some (str ''<span style="color:#ffffff">'' @ i @ str ''</span>'')
   \<and> colorIcon (Str i) (Str []) = Some (str ''<span style="color:#ffffff">'' @ i @ str ''</span>'')\<close>
  by (simp add: colorIcon_def colors_def objectPrototype_def nativeFn_def str_append)

text \<open>
  Claim C8 fails on the code for a colour key that names a member of
  \<open>Object.prototype\<close>: \<open>colors["constructor"]\<close> is the inherited \<open>Object\<close> function, which
  is truthy, so \<open>||\<close> does not reach the default and the style holds the text of the
  function instead of \<open>#ffffff\<close>.
\<close>

theorem colorIcon_constructor:
  \<open>colorIcon (Str (str ''[+]'')) (Str (str ''constructor''))
     = Some (str ''<span style="color:function Object() { [native code] }">[+]</span>'')
   \<and> str ''constructor'' \<notin> fst ` set colors
   \<and> colorIcon (Str (str ''[+]'')) (Str (str ''constructor''))
     \<noteq> Some (str ''<span style="color:#ffffff">[+]</span>'')\<close>
  by (simp add: colorIcon_def colors_def objectPrototype_def nativeFn_def str_def)

end
